theory Spec2Isabelle
  imports Complex_Main "HOL-Library.Option_ord"
begin

section \<open>School management backend: data model\<close>

text \<open>
  The repository holds two variants of one Express/Mongoose server: the full server
  (the variant with term, academic year and notifications) and a simplified one
  (\<open>index.js\<close>). The embedding follows the full server; where the simplified server differs
  and a property depends on the difference, its handler is embedded as well, with the
  suffix \<open>_simple\<close>.

  Conventions of the embedding.
  \<^item> A MongoDB collection is the list of its documents in insertion order. \<open>findOne\<close> is
    \<open>find\<close> (first match), \<open>find\<close> is \<open>filter\<close>, \<open>countDocuments\<close> is the length of
    the filtered list, \<open>deleteMany\<close> keeps the documents that do not match.
  \<^item> An ObjectId is a natural number; \<open>next_oid\<close> is the identifier the driver gives to
    the next document that is constructed.
  \<^item> A \<open>Date\<close> is its number of milliseconds since the epoch, an integer.
  \<^item> A field of a request body is \<open>None\<close> when the body does not carry it
    (\<open>undefined\<close> after destructuring). Values of the wrong JSON type, and an explicit
    \<open>null\<close>, are outside the model. A filter whose value is \<open>undefined\<close> is sent as
    \<open>null\<close> and matches no stored document, since the fields that are looked up are
    required ones.
  \<^item> A JavaScript \<open>Number\<close> that is only stored and compared (marks, amount, age) is a
    real number.
  \<^item> Record fields carry a prefix naming their schema (\<open>s_\<close> student, \<open>g_\<close> grade,
    \<open>a_\<close> attendance, \<open>f_\<close> fee, \<open>n_\<close> notification, \<open>u_\<close> user), since two schemas
    share field names such as \<open>status\<close> and \<open>student_id\<close>.
\<close>

type_synonym oid = nat
type_synonym time = int

record user =
  u_id :: oid
  u_full_name :: string
  u_email :: string
  u_password :: string
  u_role :: string
  u_created_at :: time

record student =
  s_id :: oid
  s_name :: string
  s_rollNumber :: string
  s_class :: string
  s_age :: real
  s_gender :: string
  s_email :: string
  s_phone :: "string option"
  s_address :: "string option"
  s_guardianName :: "string option"
  s_guardianPhone :: "string option"
  s_admissionDate :: time
  s_status :: string
  s_created_at :: time

record grade =
  g_id :: oid
  g_student_id :: oid
  g_subject :: string
  g_marks :: real
  g_grade :: string
  g_term :: string
  g_academic_year :: string
  g_remarks :: "string option"
  g_created_at :: time

record attendance_rec =
  a_id :: oid
  a_student_id :: oid
  a_date :: time
  a_status :: string
  a_remarks :: "string option"
  a_created_at :: time

record fee =
  f_id :: oid
  f_student_id :: oid
  f_amount :: real
  f_payment_date :: "time option"
  f_payment_method :: "string option"
  f_term :: string
  f_academic_year :: string
  f_status :: string
  f_receipt_number :: "string option"
  f_created_at :: time

record notification =
  n_id :: oid
  n_title :: string
  n_message :: string
  n_type :: string
  n_category :: string
  n_recipient :: oid
  n_read :: bool
  n_created_at :: time

record db =
  users :: "user list"
  students :: "student list"
  grades :: "grade list"
  attendance :: "attendance_rec list"
  fees :: "fee list"
  notifications :: "notification list"
  next_oid :: oid

subsection \<open>Responses and the request environment\<close>

text \<open>
  Every handler ends in \<open>res.status(c).json(body)\<close>. \<open>Json c body\<close> is a success body,
  \<open>JsonError c msg\<close> is \<open>res.status(c).json({ error: msg })\<close> with a message written in
  the source, and \<open>JsonCaught x\<close> is the \<open>catch\<close> branch every handler shares,
  \<open>res.status(500).json({ error: err.message })\<close>, for the exception \<open>x\<close> thrown inside
  the \<open>try\<close> block.
\<close>

datatype exn = ValidationError | CastError | IllegalArguments | DuplicateKey

datatype 'a reply = Json nat 'a | JsonError nat string | JsonCaught exn

fun status_code :: "'a reply \<Rightarrow> nat" where
  "status_code (Json c _) = c"
| "status_code (JsonError c _) = c"
| "status_code (JsonCaught _) = 500"

text \<open>
  The payload of a token as \<open>jwt.sign\<close> builds it: the two fields the handlers pass and
  the issue and expiry times (in seconds) the library adds for \<open>expiresIn\<close>.
\<close>

record jwt_payload =
  jp_id :: oid
  jp_role :: string
  jp_iat :: int
  jp_exp :: int

text \<open>
  What a request reads from outside the database: the clock, the server's time zone (a
  fixed offset of local time from UTC, in milliseconds), the signing secret of the
  environment, and the two libraries. \<open>bcrypt_hash\<close> is \<open>bcrypt.hash(password, 10)\<close> as it
  runs in this request (the salt the library draws is part of the environment),
  \<open>bcrypt_compare\<close> is \<open>bcrypt.compare\<close>, \<open>jwt_encode\<close> serialises and signs a payload
  with a secret, and \<open>jwt_decode\<close> checks the signature of a token against a secret and
  returns its payload. \<open>toLocaleString\<close> is \<open>Number.prototype.toLocaleString\<close> in the
  server's locale. \<open>omit_undefined\<close> says what the installed Mongoose does with a key of
  an update whose value is \<open>undefined\<close>: it drops the key (Mongoose 6 and later) or
  writes \<open>null\<close> (Mongoose 5). The libraries are parameters: nothing is assumed of them
  but what a theorem states as a premise.
\<close>

record env =
  now :: time
  tz_offset :: int
  JWT_SECRET :: string
  bcrypt_hash :: "string \<Rightarrow> string"
  bcrypt_compare :: "string \<Rightarrow> string \<Rightarrow> bool"
  jwt_encode :: "string \<Rightarrow> jwt_payload \<Rightarrow> string"
  jwt_decode :: "string \<Rightarrow> string \<Rightarrow> jwt_payload option"
  toLocaleString :: "real \<Rightarrow> string"
  omit_undefined :: bool

subsection \<open>Schema validators and collection operations\<close>

text \<open>
  Mongoose's \<open>required\<close> validator on a \<open>String\<close> path rejects a missing value and the
  empty string.
\<close>

definition required_string :: "string option \<Rightarrow> bool" where
  "required_string v = (case v of None \<Rightarrow> False | Some s \<Rightarrow> s \<noteq> [])"

text \<open>\<open>updateOne\<close> and \<open>deleteOne\<close> act on the first document that matches.\<close>

fun update_first :: "('a \<Rightarrow> bool) \<Rightarrow> ('a \<Rightarrow> 'a) \<Rightarrow> 'a list \<Rightarrow> 'a list" where
  "update_first P f [] = []"
| "update_first P f (x # xs) = (if P x then f x # xs else x # update_first P f xs)"

fun delete_first :: "('a \<Rightarrow> bool) \<Rightarrow> 'a list \<Rightarrow> 'a list" where
  "delete_first P [] = []"
| "delete_first P (x # xs) = (if P x then xs else x # delete_first P xs)"

text \<open>
  \<open>populate('student_id', 'name rollNumber class')\<close> replaces the reference by the three
  fields of the student it names, or by \<open>null\<close> if there is no such student.
\<close>

definition populate :: "db \<Rightarrow> oid \<Rightarrow> (string \<times> string \<times> string) option" where
  "populate d sid =
     map_option (\<lambda>s. (s_name s, s_rollNumber s, s_class s))
       (find (\<lambda>s. s_id s = sid) (students d))"

text \<open>
  Leading and trailing white space as \<open>String.prototype.trim\<close> removes it (the ASCII
  white space characters); the notification schema declares \<open>trim: true\<close> for the title
  and the message.
\<close>

definition is_space :: "char \<Rightarrow> bool" where
  "is_space c = (c \<in> set [CHR '' '', CHR 0x09, CHR 0x0A, CHR 0x0B, CHR 0x0C, CHR 0x0D])"

definition trim :: "string \<Rightarrow> string" where
  "trim s = rev (dropWhile is_space (rev (dropWhile is_space s)))"

text \<open>
  The notification that three of the handlers save after their own document: the schema
  trims the title and the message, and fills in \<open>read\<close> and \<open>created_at\<close>.
\<close>

definition new_Notification ::
  "env \<Rightarrow> oid \<Rightarrow> string \<Rightarrow> string \<Rightarrow> string \<Rightarrow> string \<Rightarrow> oid \<Rightarrow> notification" where
  "new_Notification e i title message type category recipient =
     \<lparr>n_id = i, n_title = trim title, n_message = trim message, n_type = type,
      n_category = category, n_recipient = recipient, n_read = False,
      n_created_at = now e\<rparr>"

section \<open>Grades\<close>

text \<open>
  \<open>POST /api/grades\<close> of the full server. The letter grade is computed from the body's
  \<open>marks\<close> before the document is validated; on \<open>undefined\<close> every comparison is false
  and the letter stays \<open>F\<close>.
\<close>

record grade_body =
  gb_student_id :: "oid option"
  gb_subject :: "string option"
  gb_marks :: "real option"
  gb_term :: "string option"
  gb_academic_year :: "string option"
  gb_remarks :: "string option"

definition letter_grade :: "real option \<Rightarrow> string" where
  "letter_grade marks =
     (case marks of
        None \<Rightarrow> ''F''
      | Some m \<Rightarrow>
          if m \<ge> 90 then ''A+''
          else if m \<ge> 80 then ''A''
          else if m \<ge> 70 then ''B''
          else if m \<ge> 60 then ''C''
          else if m \<ge> 50 then ''D''
          else ''F'')"

text \<open>
  \<open>new Grade({...})\<close> followed by \<open>save()\<close>: the document if it passes \<open>gradeSchema\<close>
  (student, subject, marks, term and academic year required, marks within 0 and 100),
  \<open>None\<close> for the validation error.
\<close>

definition new_Grade :: "env \<Rightarrow> oid \<Rightarrow> grade_body \<Rightarrow> string \<Rightarrow> grade option" where
  "new_Grade e i b letter =
     (case gb_student_id b of None \<Rightarrow> None | Some sid \<Rightarrow>
      case gb_subject b of None \<Rightarrow> None | Some subject \<Rightarrow>
      case gb_marks b of None \<Rightarrow> None | Some marks \<Rightarrow>
      case gb_term b of None \<Rightarrow> None | Some term \<Rightarrow>
      case gb_academic_year b of None \<Rightarrow> None | Some year \<Rightarrow>
        if subject = [] \<or> marks < 0 \<or> marks > 100 \<or> term = [] \<or> year = [] then None
        else Some \<lparr>g_id = i, g_student_id = sid, g_subject = subject, g_marks = marks,
                   g_grade = letter, g_term = term, g_academic_year = year,
                   g_remarks = gb_remarks b, g_created_at = now e\<rparr>)"

definition add_grade ::
  "env \<Rightarrow> jwt_payload \<Rightarrow> grade_body \<Rightarrow> db \<Rightarrow> (string \<times> grade) reply \<times> db" where
  "add_grade e usr b d =
     (let letter = letter_grade (gb_marks b) in
      case new_Grade e (next_oid d) b letter of
        None \<Rightarrow> (JsonCaught ValidationError, d)
      | Some gradeRecord \<Rightarrow>
          let note = new_Notification e (next_oid d + 1) ''Grade Added''
                       (''Grade for '' @ g_subject gradeRecord @ '' has been recorded'')
                       ''info'' ''grade'' (jp_id usr)
          in (Json 201 (''Grade added successfully'', gradeRecord),
              d\<lparr>grades := grades d @ [gradeRecord],
                notifications := notifications d @ [note],
                next_oid := next_oid d + 2\<rparr>))"

subsection \<open>The simplified server's grades\<close>

text \<open>
  \<open>index.js\<close>: \<open>gradeSchema\<close> has the paths \<open>student_id\<close>, \<open>subject\<close>, \<open>marks\<close> and
  \<open>created_at\<close>, and \<open>POST /api/grades\<close> passes the first three to \<open>new Grade\<close>. No
  letter is computed and the schema has no path to store one. The handler touches the
  grade collection only: it is given that collection and the ObjectId of the new
  document.
\<close>

record grade_simple =
  gs_id :: oid
  gs_student_id :: oid
  gs_subject :: string
  gs_marks :: real
  gs_created_at :: time

record grade_simple_body =
  gsb_student_id :: "oid option"
  gsb_subject :: "string option"
  gsb_marks :: "real option"

definition new_Grade_simple :: "env \<Rightarrow> oid \<Rightarrow> grade_simple_body \<Rightarrow> grade_simple option" where
  "new_Grade_simple e i b =
     (case gsb_student_id b of None \<Rightarrow> None | Some sid \<Rightarrow>
      case gsb_subject b of None \<Rightarrow> None | Some subject \<Rightarrow>
      case gsb_marks b of None \<Rightarrow> None | Some marks \<Rightarrow>
        if subject = [] \<or> marks < 0 \<or> marks > 100 then None
        else Some \<lparr>gs_id = i, gs_student_id = sid, gs_subject = subject, gs_marks = marks,
                   gs_created_at = now e\<rparr>)"

definition add_grade_simple ::
  "env \<Rightarrow> oid \<Rightarrow> grade_simple_body \<Rightarrow> grade_simple list \<Rightarrow>
     (string \<times> grade_simple) reply \<times> grade_simple list" where
  "add_grade_simple e i b coll =
     (case new_Grade_simple e i b of
        None \<Rightarrow> (JsonCaught ValidationError, coll)
      | Some gradeRecord \<Rightarrow>
          (Json 201 (''Grade added successfully'', gradeRecord), coll @ [gradeRecord]))"

text \<open>
  A stored grade as \<open>res.json\<close> writes it: one key for \<open>_id\<close>, one for every path of the
  schema that the document has a value for, and the version key. The letter grade of a
  stored record is the value of its key \<open>grade\<close>.
\<close>

datatype json = JId oid | JString string | JNumber real | JDate time

definition grade_json :: "grade \<Rightarrow> (string \<times> json) list" where
  "grade_json g =
     [(''_id'', JId (g_id g)), (''student_id'', JId (g_student_id g)),
      (''subject'', JString (g_subject g)), (''marks'', JNumber (g_marks g)),
      (''grade'', JString (g_grade g)), (''term'', JString (g_term g)),
      (''academic_year'', JString (g_academic_year g))]
     @ (case g_remarks g of None \<Rightarrow> [] | Some r \<Rightarrow> [(''remarks'', JString r)])
     @ [(''created_at'', JDate (g_created_at g)), (''__v'', JNumber 0)]"

definition grade_simple_json :: "grade_simple \<Rightarrow> (string \<times> json) list" where
  "grade_simple_json g =
     [(''_id'', JId (gs_id g)), (''student_id'', JId (gs_student_id g)),
      (''subject'', JString (gs_subject g)), (''marks'', JNumber (gs_marks g)),
      (''created_at'', JDate (gs_created_at g)), (''__v'', JNumber 0)]"

section \<open>Attendance\<close>

text \<open>
  \<open>new Date(date).setHours(0, 0, 0, 0)\<close>: the time of day, read in the server's zone, is
  removed, and the new time value is returned.
\<close>

definition setHours0 :: "env \<Rightarrow> time \<Rightarrow> time" where
  "setHours0 e t = t - (t + tz_offset e) mod 86400000"

record attendance_body =
  ab_student_id :: "oid option"
  ab_date :: "time option"
  ab_status :: "string option"
  ab_remarks :: "string option"

definition attendance_statuses :: "string list" where
  "attendance_statuses = [''present'', ''absent'', ''late'', ''excused'']"

definition new_Attendance :: "env \<Rightarrow> oid \<Rightarrow> attendance_body \<Rightarrow> attendance_rec option" where
  "new_Attendance e i b =
     (case ab_student_id b of None \<Rightarrow> None | Some sid \<Rightarrow>
      case ab_date b of None \<Rightarrow> None | Some date \<Rightarrow>
      case ab_status b of None \<Rightarrow> None | Some status \<Rightarrow>
        if status \<in> set attendance_statuses
        then Some \<lparr>a_id = i, a_student_id = sid, a_date = date, a_status = status,
                    a_remarks = ab_remarks b, a_created_at = now e\<rparr>
        else None)"

text \<open>
  \<open>POST /api/attendance\<close>. The lookup compares the stored \<open>date\<close> for equality with the
  start of the requested day; a body without a date makes the lookup throw (the filter's
  date is \<open>NaN\<close>). A new document stores the body's \<open>date\<close> as it came.
\<close>

definition mark_attendance ::
  "env \<Rightarrow> jwt_payload \<Rightarrow> attendance_body \<Rightarrow> db \<Rightarrow> (string \<times> attendance_rec) reply \<times> db" where
  "mark_attendance e usr b d =
     (case ab_date b of
        None \<Rightarrow> (JsonCaught CastError, d)
      | Some date \<Rightarrow>
          (case find (\<lambda>a. Some (a_student_id a) = ab_student_id b \<and>
                            a_date a = setHours0 e date) (attendance d) of
             Some existingAttendance \<Rightarrow>
               (case ab_status b of
                  None \<Rightarrow> (JsonCaught ValidationError, d)
                | Some status \<Rightarrow>
                    if status \<in> set attendance_statuses
                    then
                      let updated = existingAttendance\<lparr>a_status := status,
                                                        a_remarks := ab_remarks b\<rparr>
                      in (Json 200 (''Attendance updated successfully'', updated),
                          d\<lparr>attendance :=
                              update_first (\<lambda>a. a_id a = a_id existingAttendance)
                                (\<lambda>_. updated) (attendance d)\<rparr>)
                    else (JsonCaught ValidationError, d))
           | None \<Rightarrow>
               (case new_Attendance e (next_oid d) b of
                  None \<Rightarrow> (JsonCaught ValidationError, d)
                | Some attendance_doc \<Rightarrow>
                    (Json 201 (''Attendance marked successfully'', attendance_doc),
                     d\<lparr>attendance := attendance d @ [attendance_doc],
                       next_oid := next_oid d + 1\<rparr>))))"

text \<open>
  \<open>GET /api/attendance?date=\<close>: the documents whose date lies between the start of the
  day and 23:59:59.999 of it.
\<close>

definition get_attendance ::
  "env \<Rightarrow> time option \<Rightarrow> db \<Rightarrow>
     (attendance_rec \<times> (string \<times> string \<times> string) option) list reply" where
  "get_attendance e date d =
     (case date of
        None \<Rightarrow> JsonError 400 ''Date parameter is required''
      | Some t \<Rightarrow>
          let searchDate = setHours0 e t; endDate = searchDate + 86399999
          in Json 200 (map (\<lambda>a. (a, populate d (a_student_id a)))
                 (filter (\<lambda>a. searchDate \<le> a_date a \<and> a_date a \<le> endDate) (attendance d))))"

text \<open>\<open>GET /api/attendance/student/:studentId\<close>, newest date first.\<close>

definition get_student_attendance ::
  "oid \<Rightarrow> time option \<Rightarrow> time option \<Rightarrow> db \<Rightarrow>
     (attendance_rec \<times> (string \<times> string \<times> string) option) list reply" where
  "get_student_attendance studentId startDate endDate d =
     Json 200 (map (\<lambda>a. (a, populate d (a_student_id a)))
       (sort_key (\<lambda>a. - a_date a)
          (filter (\<lambda>a. a_student_id a = studentId \<and>
                        (case (startDate, endDate) of
                           (Some s, Some t) \<Rightarrow> s \<le> a_date a \<and> a_date a \<le> t
                         | _ \<Rightarrow> True))
             (attendance d))))"

section \<open>Students\<close>








definition given_in :: "string list \<Rightarrow> string option \<Rightarrow> bool" where
  "given_in enum v = (case v of None \<Rightarrow> True | Some s \<Rightarrow> s \<in> set enum)"


definition set_field :: "'a option \<Rightarrow> 'a \<Rightarrow> 'a" where
  "set_field v old = (case v of None \<Rightarrow> old | Some x \<Rightarrow> x)"








text \<open>
  \<open>DELETE /api/students/:id\<close>: \<open>findByIdAndDelete\<close>, then one \<open>deleteMany\<close> on each of the
  three collections that refer to students.
\<close>

definition delete_student :: "oid \<Rightarrow> db \<Rightarrow> string reply \<times> db" where
  "delete_student i d =
     (case find (\<lambda>s. s_id s = i) (students d) of
        None \<Rightarrow> (JsonError 404 ''Student not found'', d)
      | Some st \<Rightarrow>
          (Json 200 ''Student and related records deleted successfully'',
           d\<lparr>students := delete_first (\<lambda>s. s_id s = i) (students d),
             grades := filter (\<lambda>g. g_student_id g \<noteq> i) (grades d),
             attendance := filter (\<lambda>a. a_student_id a \<noteq> i) (attendance d),
             fees := filter (\<lambda>f. f_student_id f \<noteq> i) (fees d)\<rparr>))"

text \<open>\<open>GET /api/students/:id\<close>.\<close>

definition get_student :: "oid \<Rightarrow> db \<Rightarrow> student reply" where
  "get_student i d =
     (case find (\<lambda>s. s_id s = i) (students d) of
        None \<Rightarrow> JsonError 404 ''Student not found''
      | Some st \<Rightarrow> Json 200 st)"

text \<open>\<open>GET /api/grades/student/:studentId\<close>.\<close>

definition get_student_grades ::
  "oid \<Rightarrow> db \<Rightarrow> (grade \<times> (string \<times> string \<times> string) option) list reply" where
  "get_student_grades studentId d =
     Json 200 (map (\<lambda>g. (g, populate d (g_student_id g)))
       (filter (\<lambda>g. g_student_id g = studentId) (grades d)))"

text \<open>
  \<open>GET /api/fees/student/:studentId\<close>, latest payment date first (a missing date sorts
  below every date).
\<close>

definition get_student_fees ::
  "oid \<Rightarrow> db \<Rightarrow> (fee \<times> (string \<times> string \<times> string) option) list reply" where
  "get_student_fees studentId d =
     Json 200 (map (\<lambda>f. (f, populate d (f_student_id f)))
       (rev (sort_key f_payment_date
          (filter (\<lambda>f. f_student_id f = studentId) (fees d)))))"

section \<open>Fees\<close>

text \<open>
  The full server. \<open>feeSchema\<close> gives \<open>payment_date\<close> the default \<open>Date.now\<close> and
  \<open>status\<close> the default \<open>paid\<close>; \<open>POST /api/fees\<close> passes no payment date, so the
  default is what every new document stores. The full server has no route that updates a
  fee.
\<close>

record fee_body =
  fb_student_id :: "oid option"
  fb_amount :: "real option"
  fb_payment_method :: "string option"
  fb_term :: "string option"
  fb_academic_year :: "string option"
  fb_receipt_number :: "string option"
  fb_status :: "string option"

definition payment_methods :: "string list" where
  "payment_methods = [''cash'', ''card'', ''transfer'', ''cheque'']"

definition fee_statuses :: "string list" where
  "fee_statuses = [''paid'', ''pending'', ''overdue'']"

text \<open>\<open>v || dflt\<close> on a string: the default replaces \<open>undefined\<close> and the empty string.\<close>

definition or_default :: "string option \<Rightarrow> string \<Rightarrow> string" where
  "or_default v dflt = (case v of None \<Rightarrow> dflt | Some s \<Rightarrow> if s = [] then dflt else s)"

definition new_Fee :: "env \<Rightarrow> oid \<Rightarrow> fee_body \<Rightarrow> fee option" where
  "new_Fee e i b =
     (case fb_student_id b of None \<Rightarrow> None | Some sid \<Rightarrow>
      case fb_amount b of None \<Rightarrow> None | Some amount \<Rightarrow>
      case fb_term b of None \<Rightarrow> None | Some term \<Rightarrow>
      case fb_academic_year b of None \<Rightarrow> None | Some year \<Rightarrow>
        if term = [] \<or> year = [] \<or> \<not> given_in payment_methods (fb_payment_method b)
           \<or> or_default (fb_status b) ''paid'' \<notin> set fee_statuses
        then None
        else Some \<lparr>f_id = i, f_student_id = sid, f_amount = amount,
                   f_payment_date = Some (now e),
                   f_payment_method = fb_payment_method b, f_term = term,
                   f_academic_year = year, f_status = or_default (fb_status b) ''paid'',
                   f_receipt_number = fb_receipt_number b, f_created_at = now e\<rparr>)"

text \<open>The naira sign of the notification's message, as its three UTF-8 bytes.\<close>

definition naira :: string where
  "naira = [CHR 0xE2, CHR 0x82, CHR 0xA6]"

definition add_fee ::
  "env \<Rightarrow> jwt_payload \<Rightarrow> fee_body \<Rightarrow> db \<Rightarrow> (string \<times> fee) reply \<times> db" where
  "add_fee e usr b d =
     (case new_Fee e (next_oid d) b of
        None \<Rightarrow> (JsonCaught ValidationError, d)
      | Some fee_doc \<Rightarrow>
          let note = new_Notification e (next_oid d + 1) ''Fee Payment Recorded''
                       (''Payment of '' @ naira @ toLocaleString e (f_amount fee_doc) @
                        '' has been recorded'')
                       ''success'' ''fee'' (jp_id usr)
          in (Json 201 (''Fee payment recorded successfully'', fee_doc),
              d\<lparr>fees := fees d @ [fee_doc],
                notifications := notifications d @ [note],
                next_oid := next_oid d + 2\<rparr>))"

subsection \<open>The simplified server's fees\<close>

text \<open>
  \<open>index.js\<close>: the schema has no default for \<open>payment_date\<close>, and both \<open>POST /api/fees\<close>
  and \<open>PUT /api/fees/:id\<close> write \<open>status === 'paid' ? new Date() : null\<close>. The update
  runs without validators, so the stored status can be any string, or \<open>null\<close>.
\<close>

record fee_simple =
  fs_id :: oid
  fs_student_id :: oid
  fs_amount :: real
  fs_status :: "string option"
  fs_payment_date :: "time option"
  fs_created_at :: time

record fee_simple_body =
  fsb_student_id :: "oid option"
  fsb_amount :: "real option"
  fsb_status :: "string option"

record store_simple =
  fees_simple :: "fee_simple list"
  next_oid_simple :: oid

definition fee_statuses_simple :: "string list" where
  "fee_statuses_simple = [''paid'', ''pending'']"

definition new_Fee_simple :: "env \<Rightarrow> oid \<Rightarrow> fee_simple_body \<Rightarrow> fee_simple option" where
  "new_Fee_simple e i b =
     (case fsb_student_id b of None \<Rightarrow> None | Some sid \<Rightarrow>
      case fsb_amount b of None \<Rightarrow> None | Some amount \<Rightarrow>
        if or_default (fsb_status b) ''pending'' \<in> set fee_statuses_simple
        then Some \<lparr>fs_id = i, fs_student_id = sid, fs_amount = amount,
                    fs_status = Some (or_default (fsb_status b) ''pending''),
                    fs_payment_date = (if fsb_status b = Some ''paid'' then Some (now e) else None),
                    fs_created_at = now e\<rparr>
        else None)"

definition add_fee_simple ::
  "env \<Rightarrow> fee_simple_body \<Rightarrow> store_simple \<Rightarrow> (string \<times> fee_simple) reply \<times> store_simple" where
  "add_fee_simple e b st =
     (case new_Fee_simple e (next_oid_simple st) b of
        None \<Rightarrow> (JsonCaught ValidationError, st)
      | Some fee_doc \<Rightarrow>
          (Json 201 (''Fee recorded successfully'', fee_doc),
           st\<lparr>fees_simple := fees_simple st @ [fee_doc],
              next_oid_simple := next_oid_simple st + 1\<rparr>))"

definition update_fee_simple ::
  "env \<Rightarrow> oid \<Rightarrow> string option \<Rightarrow> store_simple \<Rightarrow> (string \<times> fee_simple) reply \<times> store_simple" where
  "update_fee_simple e i status st =
     (case find (\<lambda>f. fs_id f = i) (fees_simple st) of
        None \<Rightarrow> (JsonError 404 ''Fee not found'', st)
      | Some f \<Rightarrow>
          let fee_doc = f\<lparr>fs_status := (case status of
                                          None \<Rightarrow> if omit_undefined e then fs_status f else None
                                        | Some s \<Rightarrow> Some s),
                          fs_payment_date := (if status = Some ''paid'' then Some (now e) else None)\<rparr>
          in (Json 200 (''Fee updated successfully'', fee_doc),
              st\<lparr>fees_simple := update_first (\<lambda>f. fs_id f = i) (\<lambda>_. fee_doc) (fees_simple st)\<rparr>))"

text \<open>A sequence of fee requests to the simplified server, each in its own environment.\<close>

datatype fee_request = PostFee fee_simple_body | PutFee oid "string option"

definition fee_step :: "env \<times> fee_request \<Rightarrow> store_simple \<Rightarrow> store_simple" where
  "fee_step r st =
     (case snd r of
        PostFee b \<Rightarrow> snd (add_fee_simple (fst r) b st)
      | PutFee i status \<Rightarrow> snd (update_fee_simple (fst r) i status st))"

fun fee_run :: "(env \<times> fee_request) list \<Rightarrow> store_simple \<Rightarrow> store_simple" where
  "fee_run [] st = st"
| "fee_run (r # rs) st = fee_run rs (fee_step r st)"

text \<open>The invariant: a fee with a payment date has the status \<open>paid\<close>.\<close>

definition paid_if_dated :: "fee_simple \<Rightarrow> bool" where
  "paid_if_dated f = (fs_payment_date f = None \<or> fs_status f = Some ''paid'')"

section \<open>Authentication\<close>

text \<open>
  \<open>String.prototype.replace\<close> with a string pattern: the first occurrence of the pattern
  is replaced, wherever it stands.
\<close>

fun replace_first :: "string \<Rightarrow> string \<Rightarrow> string \<Rightarrow> string" where
  "replace_first pat rep [] = (if pat = [] then rep else [])"
| "replace_first pat rep (c # cs) =
     (if take (length pat) (c # cs) = pat then rep @ drop (length pat) (c # cs)
      else c # replace_first pat rep cs)"

text \<open>
  \<open>jwt.sign(payload, secret, {expiresIn: '7d'})\<close> stamps the payload with the issue time
  and an expiry 604800 seconds later; \<open>jwt.verify(token, secret)\<close> throws when the
  signature does not check or when the clock has reached the expiry.
\<close>

definition sign_token :: "env \<Rightarrow> oid \<Rightarrow> string \<Rightarrow> string" where
  "sign_token e uid role =
     jwt_encode e (JWT_SECRET e)
       \<lparr>jp_id = uid, jp_role = role, jp_iat = now e div 1000,
        jp_exp = now e div 1000 + 604800\<rparr>"

definition jwt_verify :: "env \<Rightarrow> string \<Rightarrow> jwt_payload option" where
  "jwt_verify e token =
     (case jwt_decode e (JWT_SECRET e) token of
        None \<Rightarrow> None
      | Some p \<Rightarrow> if now e div 1000 \<ge> jp_exp p then None else Some p)"

text \<open>
  The middleware: the left result is the response it sends itself, the right result is
  \<open>req.user\<close>, with which the next handler runs.
\<close>

definition authenticate :: "env \<Rightarrow> string option \<Rightarrow> 'a reply + jwt_payload" where
  "authenticate e header =
     (case map_option (replace_first ''Bearer '' []) header of
        None \<Rightarrow> Inl (JsonError 401 ''Access denied. No token provided.'')
      | Some token \<Rightarrow>
          if token = [] then Inl (JsonError 401 ''Access denied. No token provided.'')
          else
            (case jwt_verify e token of
               None \<Rightarrow> Inl (JsonError 400 ''Invalid token'')
             | Some decoded \<Rightarrow> Inr decoded))"

text \<open>
  The routes of the two servers, and whether \<open>authenticate\<close> stands before the handler in
  the route's registration.
\<close>

datatype route =
    Root | Register | Login | Logout
  | Students_list | Student_get | Student_create | Student_update | Student_delete
  | Students_bulk
  | Grades_all | Grades_student | Grade_add
  | Attendance_by_date | Attendance_student | Attendance_mark | Attendance_stats
  | Fees_list | Fees_student | Fee_add | Fee_update
  | Dashboard | Class_distribution | Top_performers
  | Notifications_list | Notifications_unread_count | Notification_read
  | Notifications_mark_all_read | Notification_delete | Notification_create
  | Activities_recent | Users_profile | Users_change_password

fun uses_authenticate :: "route \<Rightarrow> bool" where
  "uses_authenticate Root = False"
| "uses_authenticate Register = False"
| "uses_authenticate Login = False"
| "uses_authenticate Logout = True"
| "uses_authenticate Students_list = True"
| "uses_authenticate Student_get = True"
| "uses_authenticate Student_create = True"
| "uses_authenticate Student_update = True"
| "uses_authenticate Student_delete = True"
| "uses_authenticate Students_bulk = True"
| "uses_authenticate Grades_all = True"
| "uses_authenticate Grades_student = True"
| "uses_authenticate Grade_add = True"
| "uses_authenticate Attendance_by_date = True"
| "uses_authenticate Attendance_student = True"
| "uses_authenticate Attendance_mark = True"
| "uses_authenticate Attendance_stats = True"
| "uses_authenticate Fees_list = True"
| "uses_authenticate Fees_student = True"
| "uses_authenticate Fee_add = True"
| "uses_authenticate Fee_update = True"
| "uses_authenticate Dashboard = True"
| "uses_authenticate Class_distribution = True"
| "uses_authenticate Top_performers = True"
| "uses_authenticate Notifications_list = True"
| "uses_authenticate Notifications_unread_count = True"
| "uses_authenticate Notification_read = True"
| "uses_authenticate Notifications_mark_all_read = True"
| "uses_authenticate Notification_delete = True"
| "uses_authenticate Notification_create = True"
| "uses_authenticate Activities_recent = True"
| "uses_authenticate Users_profile = True"
| "uses_authenticate Users_change_password = True"

text \<open>
  Express runs the functions of a registration in order: with \<open>authenticate\<close> in front,
  the handler runs only if the middleware calls \<open>next()\<close>, and then with \<open>req.user\<close> set.
  The table of handlers is a parameter.
\<close>

definition serve ::
  "env \<Rightarrow> (route \<Rightarrow> jwt_payload option \<Rightarrow> 'q \<Rightarrow> 's \<Rightarrow> 'r reply \<times> 's) \<Rightarrow>
     route \<Rightarrow> string option \<Rightarrow> 'q \<Rightarrow> 's \<Rightarrow> 'r reply \<times> 's" where
  "serve e handler r header q st =
     (if uses_authenticate r
      then (case authenticate e header of
              Inl response \<Rightarrow> (response, st)
            | Inr decoded \<Rightarrow> handler r (Some decoded) q st)
      else handler r None q st)"

text \<open>\<open>GET /\<close>, the test route (the greeting of its body is left out).\<close>

record root_info =
  ri_status :: string
  ri_database :: string
  ri_total_students :: nat
  ri_total_users :: nat

definition test_route :: "db \<Rightarrow> root_info reply" where
  "test_route d =
     Json 200 \<lparr>ri_status = ''Running'', ri_database = ''Connected'',
               ri_total_students = length (students d),
               ri_total_users = length (users d)\<rparr>"

subsection \<open>Registration and login\<close>

record register_body =
  rb_full_name :: "string option"
  rb_email :: "string option"
  rb_password :: "string option"
  rb_role :: "string option"


record auth_response =
  ar_message :: string
  ar_token :: string
  ar_id :: oid
  ar_full_name :: string
  ar_email :: string
  ar_role :: string

definition user_roles :: "string list" where
  "user_roles = [''teacher'', ''admin'']"

text \<open>
  \<open>POST /register\<close>. \<open>bcrypt.hash\<close> throws on a password that is not a string; the document
  is validated by \<open>save()\<close> (name, email and password required, role enumerated).
\<close>

definition register :: "env \<Rightarrow> register_body \<Rightarrow> db \<Rightarrow> auth_response reply \<times> db" where
  "register e b d =
     (case find (\<lambda>u. Some (u_email u) = rb_email b) (users d) of
        Some existingUser \<Rightarrow> (JsonError 400 ''User already exists'', d)
      | None \<Rightarrow>
          (case rb_password b of
             None \<Rightarrow> (JsonCaught IllegalArguments, d)
           | Some password \<Rightarrow>
               let hashedPassword = bcrypt_hash e password in
               (case rb_full_name b of None \<Rightarrow> (JsonCaught ValidationError, d) | Some full_name \<Rightarrow>
                case rb_email b of None \<Rightarrow> (JsonCaught ValidationError, d) | Some email \<Rightarrow>
                  if full_name = [] \<or> email = [] \<or> hashedPassword = []
                     \<or> or_default (rb_role b) ''teacher'' \<notin> set user_roles
                  then (JsonCaught ValidationError, d)
                  else
                    let usr = \<lparr>u_id = next_oid d, u_full_name = full_name, u_email = email,
                                u_password = hashedPassword,
                                u_role = or_default (rb_role b) ''teacher'',
                                u_created_at = now e\<rparr>
                    in (Json 201 \<lparr>ar_message = ''User registered successfully'',
                                  ar_token = sign_token e (u_id usr) (u_role usr),
                                  ar_id = u_id usr, ar_full_name = u_full_name usr,
                                  ar_email = u_email usr, ar_role = u_role usr\<rparr>,
                        d\<lparr>users := users d @ [usr], next_oid := next_oid d + 1\<rparr>))))"


section \<open>Dashboard\<close>

record dashboard =
  total_students :: nat
  active_students :: nat
  total_classes :: nat
  present_today :: nat
  pending_fees :: nat

text \<open>
  \<open>GET /api/stats/dashboard\<close>. \<open>distinct('class')\<close> is the list of the different class
  values; today's attendance is matched by equality with the start of the current day.
\<close>

definition dashboard_stats :: "env \<Rightarrow> db \<Rightarrow> dashboard reply" where
  "dashboard_stats e d =
     (let totalStudents = length (students d);
          activeStudents = length (filter (\<lambda>s. s_status s = ''active'') (students d));
          totalClasses = remdups (map s_class (students d));
          today = setHours0 e (now e);
          presentToday = length (filter (\<lambda>a. a_date a = today \<and> a_status a = ''present'')
                                   (attendance d));
          pendingFees = length (filter (\<lambda>f. f_status f = ''pending'') (fees d))
      in Json 200 \<lparr>total_students = totalStudents, active_students = activeStudents,
                   total_classes = length totalClasses, present_today = presentToday,
                   pending_fees = pendingFees\<rparr>)"

text \<open>
  The calendar day of a time in the server's zone, numbered from the epoch: the notion
  of day the specification speaks of.
\<close>

definition local_day :: "env \<Rightarrow> time \<Rightarrow> int" where
  "local_day e t = (t + tz_offset e) div 86400000"

section \<open>Notifications\<close>

definition notification_types :: "string list" where
  "notification_types = [''info'', ''warning'', ''success'', ''error'']"

definition notification_categories :: "string list" where
  "notification_categories = [''student'', ''grade'', ''attendance'', ''fee'', ''system'']"

text \<open>
  \<open>GET /api/notifications\<close>: the caller's notifications, newest first; \<open>limit\<close> is
  \<open>parseInt(req.query.limit) || 0\<close>, where 0 means no limit and a negative limit counts
  as its absolute value.
\<close>

definition get_notifications :: "jwt_payload \<Rightarrow> int \<Rightarrow> db \<Rightarrow> notification list reply" where
  "get_notifications usr limit d =
     (let found = sort_key (\<lambda>n. - n_created_at n)
                    (filter (\<lambda>n. n_recipient n = jp_id usr) (notifications d))
      in Json 200 (if limit = 0 then found else take (nat \<bar>limit\<bar>) found))"

definition unread_count :: "jwt_payload \<Rightarrow> db \<Rightarrow> nat reply" where
  "unread_count usr d =
     Json 200 (length (filter (\<lambda>n. n_recipient n = jp_id usr \<and> n_read n = False)
                         (notifications d)))"

text \<open>\<open>PUT /api/notifications/:id/read\<close>: \<open>findOneAndUpdate\<close> on the id and the recipient.\<close>

definition mark_read :: "jwt_payload \<Rightarrow> oid \<Rightarrow> db \<Rightarrow> notification reply \<times> db" where
  "mark_read usr i d =
     (case find (\<lambda>n. n_id n = i \<and> n_recipient n = jp_id usr) (notifications d) of
        None \<Rightarrow> (JsonError 404 ''Notification not found'', d)
      | Some n \<Rightarrow>
          (Json 200 (n\<lparr>n_read := True\<rparr>),
           d\<lparr>notifications :=
               update_first (\<lambda>n. n_id n = i \<and> n_recipient n = jp_id usr)
                 (\<lambda>n. n\<lparr>n_read := True\<rparr>) (notifications d)\<rparr>))"

definition mark_all_read :: "jwt_payload \<Rightarrow> db \<Rightarrow> string reply \<times> db" where
  "mark_all_read usr d =
     (Json 200 ''All notifications marked as read'',
      d\<lparr>notifications :=
          map (\<lambda>n. if n_recipient n = jp_id usr \<and> n_read n = False
                    then n\<lparr>n_read := True\<rparr> else n) (notifications d)\<rparr>)"

text \<open>\<open>DELETE /api/notifications/:id\<close>: \<open>findOneAndDelete\<close> on the id and the recipient.\<close>

definition delete_notification :: "jwt_payload \<Rightarrow> oid \<Rightarrow> db \<Rightarrow> string reply \<times> db" where
  "delete_notification usr i d =
     (case find (\<lambda>n. n_id n = i \<and> n_recipient n = jp_id usr) (notifications d) of
        None \<Rightarrow> (JsonError 404 ''Notification not found'', d)
      | Some n \<Rightarrow>
          (Json 200 ''Notification deleted'',
           d\<lparr>notifications :=
               delete_first (\<lambda>n. n_id n = i \<and> n_recipient n = jp_id usr) (notifications d)\<rparr>))"

text \<open>
  \<open>POST /api/notifications\<close>: the recipient is the body's, or the caller when the body
  names none.
\<close>

record notification_body =
  nb_title :: "string option"
  nb_message :: "string option"
  nb_type :: "string option"
  nb_category :: "string option"
  nb_recipient :: "oid option"

definition create_notification ::
  "env \<Rightarrow> jwt_payload \<Rightarrow> notification_body \<Rightarrow> db \<Rightarrow> notification reply \<times> db" where
  "create_notification e usr b d =
     (case nb_title b of None \<Rightarrow> (JsonCaught ValidationError, d) | Some title \<Rightarrow>
      case nb_message b of None \<Rightarrow> (JsonCaught ValidationError, d) | Some message \<Rightarrow>
        if trim title = [] \<or> trim message = []
           \<or> or_default (nb_type b) ''info'' \<notin> set notification_types
           \<or> \<not> given_in notification_categories (nb_category b)
        then (JsonCaught ValidationError, d)
        else
          let note = \<lparr>n_id = next_oid d, n_title = trim title, n_message = trim message,
                       n_type = or_default (nb_type b) ''info'',
                       n_category = set_field (nb_category b) ''system'',
                       n_recipient = set_field (nb_recipient b) (jp_id usr),
                       n_read = False, n_created_at = now e\<rparr>
          in (Json 201 note,
              d\<lparr>notifications := notifications d @ [note], next_oid := next_oid d + 1\<rparr>))"

section \<open>Sample data\<close>

text \<open>
  A concrete environment and store on which the theorems below are exercised. The clock
  reads 2024-01-15 10:00:00 UTC and the server runs in UTC. The two libraries are
  stand-ins with the shape of the real ones: a hash that prefixes the password, a
  token that spells the secret and the role.
\<close>

definition usr0 :: jwt_payload where
  "usr0 = \<lparr>jp_id = 1, jp_role = ''teacher'', jp_iat = 1705312800, jp_exp = 1705917600\<rparr>"

definition env0 :: env where
  "env0 = \<lparr>now = 1705312800000, tz_offset = 0, JWT_SECRET = ''secret'',
            bcrypt_hash = (\<lambda>p. ''$2a$10$'' @ p),
            bcrypt_compare = (\<lambda>p h. h = ''$2a$10$'' @ p),
            jwt_encode = (\<lambda>s p. s @ '':'' @ jp_role p),
            jwt_decode = (\<lambda>s t. if t = s @ '':teacher'' then Some usr0 else None),
            toLocaleString = (\<lambda>x. ''5,000''),
            omit_undefined = True\<rparr>"

definition student0 :: student where
  "student0 = \<lparr>s_id = 7, s_name = ''Ada'', s_rollNumber = ''R7'', s_class = ''10A'',
                s_age = 15, s_gender = ''Female'', s_email = ''ada@school.com'',
                s_phone = None, s_address = None, s_guardianName = None,
                s_guardianPhone = None, s_admissionDate = 1700000000000,
                s_status = ''active'', s_created_at = 1700000000000\<rparr>"

definition db_empty :: db where
  "db_empty = \<lparr>users = [], students = [], grades = [], attendance = [], fees = [],
                notifications = [], next_oid = 100\<rparr>"

definition db0 :: db where
  "db0 = db_empty\<lparr>students := [student0]\<rparr>"

definition grade_body0 :: "real \<Rightarrow> grade_body" where
  "grade_body0 m = \<lparr>gb_student_id = Some 7, gb_subject = Some ''Maths'', gb_marks = Some m,
                    gb_term = Some ''First'', gb_academic_year = Some ''2024'',
                    gb_remarks = None\<rparr>"

definition student1 :: student where
  "student1 = student0\<lparr>s_id := 8, s_name := ''Bob'', s_rollNumber := ''R8'',
                         s_class := ''10B'', s_gender := ''Male'',
                         s_email := ''bob@school.com'', s_status := ''inactive''\<rparr>"

definition grade0 :: grade where
  "grade0 = \<lparr>g_id = 20, g_student_id = 7, g_subject = ''Maths'', g_marks = 85,
              g_grade = ''A'', g_term = ''First'', g_academic_year = ''2024'',
              g_remarks = None, g_created_at = 1700000000000\<rparr>"

definition grade1 :: grade where
  "grade1 = grade0\<lparr>g_id := 21, g_student_id := 8\<rparr>"

text \<open>Two attendance documents of 2024-01-15: one dated 00:00, one dated 10:00.\<close>

definition att0 :: attendance_rec where
  "att0 = \<lparr>a_id = 30, a_student_id = 7, a_date = 1705276800000, a_status = ''present'',
            a_remarks = None, a_created_at = 1705276800000\<rparr>"

definition att1 :: attendance_rec where
  "att1 = \<lparr>a_id = 31, a_student_id = 8, a_date = 1705312800000, a_status = ''present'',
            a_remarks = None, a_created_at = 1705312800000\<rparr>"

definition fee0 :: fee where
  "fee0 = \<lparr>f_id = 40, f_student_id = 7, f_amount = 5000,
            f_payment_date = Some 1700000000000, f_payment_method = Some ''cash'',
            f_term = ''First'', f_academic_year = ''2024'', f_status = ''pending'',
            f_receipt_number = None, f_created_at = 1700000000000\<rparr>"

definition fee1 :: fee where
  "fee1 = fee0\<lparr>f_id := 41, f_student_id := 8, f_status := ''paid''\<rparr>"

definition note0 :: notification where
  "note0 = \<lparr>n_id = 50, n_title = ''Grade Added'', n_message = ''Grade for Maths has been recorded'',
             n_type = ''info'', n_category = ''grade'', n_recipient = 1, n_read = False,
             n_created_at = 1700000000000\<rparr>"

definition note1 :: notification where
  "note1 = note0\<lparr>n_id := 51, n_recipient := 2\<rparr>"

definition user0 :: user where
  "user0 = \<lparr>u_id = 1, u_full_name = ''Tess Teacher'', u_email = ''tess@school.com'',
             u_password = ''$2a$10$chalk'', u_role = ''teacher'',
             u_created_at = 1700000000000\<rparr>"

definition db1 :: db where
  "db1 = \<lparr>users = [user0], students = [student0, student1], grades = [grade0, grade1],
           attendance = [att0, att1], fees = [fee0, fee1], notifications = [note0, note1],
           next_oid = 100\<rparr>"

text \<open>An empty store whose first document will get the identifier 1.\<close>

definition db_fresh :: db where
  "db_fresh = db_empty\<lparr>next_oid := 1\<rparr>"

text \<open>The same environment eight days later, when a token issued at \<open>env0\<close> has expired.\<close>

definition env_late :: env where
  "env_late = env0\<lparr>now := 1706004000000\<rparr>"

definition register_body0 :: register_body where
  "register_body0 = \<lparr>rb_full_name = Some ''Tess Teacher'', rb_email = Some ''tess@school.com'',
                      rb_password = Some ''chalk'', rb_role = None\<rparr>"

definition attendance_body0 :: "time \<Rightarrow> string \<Rightarrow> attendance_body" where
  "attendance_body0 t status = \<lparr>ab_student_id = Some 7, ab_date = Some t,
                                ab_status = Some status, ab_remarks = None\<rparr>"

definition fee_body0 :: "string \<Rightarrow> fee_body" where
  "fee_body0 status = \<lparr>fb_student_id = Some 7, fb_amount = Some 5000,
                       fb_payment_method = Some ''cash'', fb_term = Some ''First'',
                       fb_academic_year = Some ''2024'', fb_receipt_number = None,
                       fb_status = Some status\<rparr>"

definition store_simple0 :: store_simple where
  "store_simple0 = \<lparr>fees_simple = [], next_oid_simple = 1\<rparr>"

definition fee_simple_body0 :: "string option \<Rightarrow> fee_simple_body" where
  "fee_simple_body0 status = \<lparr>fsb_student_id = Some 7, fsb_amount = Some 5000,
                               fsb_status = status\<rparr>"










definition grade_simple_body0 :: "real \<Rightarrow> grade_simple_body" where
  "grade_simple_body0 m = \<lparr>gsb_student_id = Some 7, gsb_subject = Some ''Maths'',
                           gsb_marks = Some m\<rparr>"




section \<open>Properties\<close>

subsection \<open>Letter grades\<close>

lemma new_Grade_SomeD:
  assumes "new_Grade e i b letter = Some g"
  shows "gb_marks b = Some (g_marks g) \<and> g_grade g = letter \<and> g_id g = i
    \<and> 0 \<le> g_marks g \<and> g_marks g \<le> 100"
  using assms by (auto simp: new_Grade_def split: option.splits if_splits)

lemma new_Grade_simple_SomeD:
  assumes "new_Grade_simple e i b = Some g"
  shows "gsb_marks b = Some (gs_marks g) \<and> gs_id g = i"
  using assms by (auto simp: new_Grade_simple_def split: option.splits if_splits)

text \<open>
  In the simplified server no letter grade is derived: \<open>POST /api/grades\<close> with marks 85
  answers 201 and the document it stores, as the answer shows it, has no key \<open>grade\<close>.
\<close>

theorem no_letter_in_simplified_server_counterexample:
  "add_grade_simple env0 100 (grade_simple_body0 85) [] =
     (Json 201 (''Grade added successfully'',
                \<lparr>gs_id = 100, gs_student_id = 7, gs_subject = ''Maths'', gs_marks = 85,
                 gs_created_at = 1705312800000\<rparr>),
      [\<lparr>gs_id = 100, gs_student_id = 7, gs_subject = ''Maths'', gs_marks = 85,
        gs_created_at = 1705312800000\<rparr>])
   \<and> map_of (grade_simple_json \<lparr>gs_id = 100, gs_student_id = 7, gs_subject = ''Maths'',
                                 gs_marks = 85, gs_created_at = 1705312800000\<rparr>) ''grade'' = None
   \<and> map_of (grade_simple_json \<lparr>gs_id = 100, gs_student_id = 7, gs_subject = ''Maths'',
                                 gs_marks = 85, gs_created_at = 1705312800000\<rparr>) ''grade''
       \<noteq> Some (JString ''A'')"
  by (simp add: add_grade_simple_def new_Grade_simple_def grade_simple_body0_def
      grade_simple_json_def env0_def)

lemma grade_json_letter: "map_of (grade_json g) ''grade'' = Some (JString (g_grade g))"
  by (simp add: grade_json_def)

lemma grade_simple_json_no_letter: "map_of (grade_simple_json g) ''grade'' = None"
  by (simp add: grade_simple_json_def)

text \<open>
  C3, amended. In the full server: when \<open>POST /api/grades\<close> is given marks \<open>m\<close> within 0
  and 100 and answers 201, the grade document it has appended to the collection carries
  the marks \<open>m\<close> and, as its field \<open>grade\<close>, the letter \<open>A+\<close> from 90, \<open>A\<close> from 80, \<open>B\<close>
  from 70, \<open>C\<close> from 60, \<open>D\<close> from 50 and \<open>F\<close> below; and the request does answer 201
  whenever the other required fields are present and non-empty. In the simplified
  server, \<open>POST /api/grades\<close> with such marks appends a document that carries the marks
  and has no field \<open>grade\<close>.
\<close>

theorem add_grade_letter:
  assumes "0 \<le> m" and "m \<le> 100"
  shows "(gb_marks b = Some m \<longrightarrow>
          (\<forall>msg g d'. add_grade e usr b d = (Json 201 (msg, g), d') \<longrightarrow>
            grades d' = grades d @ [g] \<and> g_marks g = m \<and>
            g_grade g = (if m \<ge> 90 then ''A+'' else if m \<ge> 80 then ''A''
                         else if m \<ge> 70 then ''B'' else if m \<ge> 60 then ''C''
                         else if m \<ge> 50 then ''D'' else ''F'') \<and>
            map_of (grade_json g) ''grade'' =
              Some (JString (if m \<ge> 90 then ''A+'' else if m \<ge> 80 then ''A''
                         else if m \<ge> 70 then ''B'' else if m \<ge> 60 then ''C''
                         else if m \<ge> 50 then ''D'' else ''F'')))
          \<and> (gb_student_id b \<noteq> None \<and> required_string (gb_subject b) \<and>
             required_string (gb_term b) \<and> required_string (gb_academic_year b) \<longrightarrow>
              (\<exists>msg g d'. add_grade e usr b d = (Json 201 (msg, g), d'))))
       \<and> (gsb_marks sb = Some m \<longrightarrow>
          (\<forall>msg g coll'. add_grade_simple e i sb coll = (Json 201 (msg, g), coll') \<longrightarrow>
            coll' = coll @ [g] \<and> gs_marks g = m \<and>
            map_of (grade_simple_json g) ''grade'' = None)
          \<and> (gsb_student_id sb \<noteq> None \<and> required_string (gsb_subject sb) \<longrightarrow>
              (\<exists>msg g coll'. add_grade_simple e i sb coll = (Json 201 (msg, g), coll'))))"
proof (intro conjI allI impI)
  fix msg g d'
  assume marks: "gb_marks b = Some m"
    and ok: "add_grade e usr b d = (Json 201 (msg, g), d')"
  then obtain g0 where g0: "new_Grade e (next_oid d) b (letter_grade (gb_marks b)) = Some g0"
    by (auto simp: add_grade_def Let_def split: option.splits)
  with ok have eq: "g = g0" and d': "grades d' = grades d @ [g0]"
    by (auto simp: add_grade_def Let_def)
  from new_Grade_SomeD [OF g0] marks
  have "g_marks g0 = m" and "g_grade g0 = letter_grade (Some m)" by auto
  then show "grades d' = grades d @ [g]" and "g_marks g = m"
    and letter: "g_grade g = (if m \<ge> 90 then ''A+'' else if m \<ge> 80 then ''A''
                         else if m \<ge> 70 then ''B'' else if m \<ge> 60 then ''C''
                         else if m \<ge> 50 then ''D'' else ''F'')"
    using eq d' by (simp_all add: letter_grade_def)
  show "map_of (grade_json g) ''grade'' =
              Some (JString (if m \<ge> 90 then ''A+'' else if m \<ge> 80 then ''A''
                         else if m \<ge> 70 then ''B'' else if m \<ge> 60 then ''C''
                         else if m \<ge> 50 then ''D'' else ''F''))"
    unfolding grade_json_letter letter [symmetric] by (rule refl)
next
  assume "gb_marks b = Some m"
    and "gb_student_id b \<noteq> None \<and> required_string (gb_subject b) \<and>
          required_string (gb_term b) \<and> required_string (gb_academic_year b)"
  then show "\<exists>msg g d'. add_grade e usr b d = (Json 201 (msg, g), d')"
    using assms
    by (auto simp: add_grade_def new_Grade_def required_string_def Let_def
        split: option.splits)
next
  fix msg g coll'
  assume marks: "gsb_marks sb = Some m"
    and ok: "add_grade_simple e i sb coll = (Json 201 (msg, g), coll')"
  then obtain g0 where g0: "new_Grade_simple e i sb = Some g0"
    by (auto simp: add_grade_simple_def split: option.splits)
  with ok have eq: "g = g0" and coll': "coll' = coll @ [g0]"
    by (auto simp: add_grade_simple_def)
  from new_Grade_simple_SomeD [OF g0] marks have "gs_marks g0 = m" by auto
  then show "coll' = coll @ [g]" and "gs_marks g = m"
    using eq coll' by simp_all
  show "map_of (grade_simple_json g) ''grade'' = None"
    by (rule grade_simple_json_no_letter)
next
  assume "gsb_marks sb = Some m"
    and "gsb_student_id sb \<noteq> None \<and> required_string (gsb_subject sb)"
  then show "\<exists>msg g coll'. add_grade_simple e i sb coll = (Json 201 (msg, g), coll')"
    using assms
    by (auto simp: add_grade_simple_def new_Grade_simple_def required_string_def
        split: option.splits)
qed

theorem add_grade_letter_witness:
  "(\<exists>msg g d'. add_grade env0 usr0 (grade_body0 85) db0 = (Json 201 (msg, g), d')
       \<and> grades d' = [g] \<and> map_of (grade_json g) ''grade'' = Some (JString ''A''))
   \<and> (\<exists>msg g d'. add_grade env0 usr0 (grade_body0 95) db0 = (Json 201 (msg, g), d')
       \<and> grades d' = [g] \<and> map_of (grade_json g) ''grade'' = Some (JString ''A+''))
   \<and> (\<exists>msg g d'. add_grade env0 usr0 (grade_body0 40) db0 = (Json 201 (msg, g), d')
       \<and> grades d' = [g] \<and> map_of (grade_json g) ''grade'' = Some (JString ''F''))
   \<and> (\<exists>msg g coll'. add_grade_simple env0 100 (grade_simple_body0 85) [] = (Json 201 (msg, g), coll')
       \<and> coll' = [g] \<and> gs_marks g = 85 \<and> map_of (grade_simple_json g) ''grade'' = None)"
proof -
  have body: "gb_marks (grade_body0 m) = Some m" "gb_student_id (grade_body0 m) \<noteq> None"
    "required_string (gb_subject (grade_body0 m))" "required_string (gb_term (grade_body0 m))"
    "required_string (gb_academic_year (grade_body0 m))" for m
    by (simp_all add: grade_body0_def required_string_def)
  have sbody: "gsb_marks (grade_simple_body0 m) = Some m"
    "gsb_student_id (grade_simple_body0 m) \<noteq> None"
    "required_string (gsb_subject (grade_simple_body0 m))" for m
    by (simp_all add: grade_simple_body0_def required_string_def)
  have empty: "grades db0 = []" by (simp add: db0_def db_empty_def)
  have ex: "\<exists>msg g d'. add_grade env0 usr0 (grade_body0 m) db0 = (Json 201 (msg, g), d')
       \<and> grades d' = [g] \<and> map_of (grade_json g) ''grade'' =
          Some (JString (if m \<ge> 90 then ''A+'' else if m \<ge> 80 then ''A''
                         else if m \<ge> 70 then ''B'' else if m \<ge> 60 then ''C''
                         else if m \<ge> 50 then ''D'' else ''F''))"
    if m: "0 \<le> m" "m \<le> 100" for m
  proof -
    note th = add_grade_letter [OF m, where b = "grade_body0 m" and e = env0 and usr = usr0
        and d = db0]
    note full = th [THEN conjunct1, THEN mp, OF body(1)]
    have req: "gb_student_id (grade_body0 m) \<noteq> None \<and> required_string (gb_subject (grade_body0 m))
        \<and> required_string (gb_term (grade_body0 m))
        \<and> required_string (gb_academic_year (grade_body0 m))"
      using body by simp
    from full [THEN conjunct2, THEN mp, OF req] obtain msg g d' where
      ok: "add_grade env0 usr0 (grade_body0 m) db0 = (Json 201 (msg, g), d')"
      by (elim exE)
    note props = full [THEN conjunct1, THEN spec, THEN spec, THEN spec, THEN mp, OF ok]
    note stored = props [THEN conjunct1]
      and letter = props [THEN conjunct2, THEN conjunct2, THEN conjunct2]
    from ok empty stored letter show ?thesis
      by (intro exI [of _ msg] exI [of _ g] exI [of _ d']) simp
  qed
  have simple: "\<exists>msg g coll'. add_grade_simple env0 100 (grade_simple_body0 85) []
         = (Json 201 (msg, g), coll')
       \<and> coll' = [g] \<and> gs_marks g = 85 \<and> map_of (grade_simple_json g) ''grade'' = None"
  proof -
    have m: "(0::real) \<le> 85" "(85::real) \<le> 100" by simp_all
    note th = add_grade_letter [OF m, where sb = "grade_simple_body0 85" and e = env0
        and i = 100 and coll = "[]"]
    note simp_part = th [THEN conjunct2, THEN mp, OF sbody(1)]
    have req: "gsb_student_id (grade_simple_body0 85) \<noteq> None
        \<and> required_string (gsb_subject (grade_simple_body0 85))"
      using sbody by simp
    from simp_part [THEN conjunct2, THEN mp, OF req] obtain msg g coll' where
      ok: "add_grade_simple env0 100 (grade_simple_body0 85) [] = (Json 201 (msg, g), coll')"
      by (elim exE)
    note props = simp_part [THEN conjunct1, THEN spec, THEN spec, THEN spec, THEN mp, OF ok]
    note stored = props [THEN conjunct1]
      and marks = props [THEN conjunct2, THEN conjunct1]
      and letter = props [THEN conjunct2, THEN conjunct2]
    from ok stored marks letter show ?thesis
      by (intro exI [of _ msg] exI [of _ g] exI [of _ coll']) simp
  qed
  from ex [of 85] ex [of 95] ex [of 40] simple show ?thesis by simp
qed

subsection \<open>Deleting a student\<close>

lemma find_None_iff_filter: "find P xs = None \<longleftrightarrow> filter P xs = []"
  by (induction xs) auto

lemma delete_first_distinct:
  assumes "distinct (map key xs)" and "find (\<lambda>x. key x = i) xs = Some x"
  shows "set (delete_first (\<lambda>x. key x = i) xs) = set xs - {x}"
    and "find (\<lambda>x. key x = i) (delete_first (\<lambda>x. key x = i) xs) = None"
  using assms
proof (induction xs)
  case Nil
  { case 1 then show ?case by simp }
  { case 2 then show ?case by simp }
next
  case (Cons y ys)
  { case 1
    show ?case
    proof (cases "key y = i")
      case True
      with "1" have "x = y" and "y \<notin> set ys" by auto
      with True show ?thesis by simp
    next
      case False
      with "1" have d: "distinct (map key ys)" and f: "find (\<lambda>x. key x = i) ys = Some x"
        by auto
      from f have "key x = i" by (auto simp: find_Some_iff)
      with False have "x \<noteq> y" by auto
      with False Cons.IH(1) [OF d f] show ?thesis by auto
    qed }
  { case 2
    show ?case
    proof (cases "key y = i")
      case True
      with "2" have "\<forall>z \<in> set ys. key z \<noteq> i" by (auto simp: image_iff)
      with True show ?thesis by (auto simp: find_None_iff)
    next
      case False
      with "2" Cons.IH(2) show ?thesis by auto
    qed }
qed

text \<open>
  C2. If a student with the identifier exists (identifiers being unique, as MongoDB keeps
  \<open>_id\<close>), \<open>DELETE /api/students/:id\<close> answers 200; afterwards the student is gone and
  every other student is still there, each of the three child collections has lost
  exactly its documents with that \<open>student_id\<close>, the three lookups by student answer
  the empty list, and users and notifications are as before. If no student has the
  identifier, the answer is 404 and the store is unchanged.
\<close>

theorem delete_student_cascade:
  assumes "distinct (map s_id (students d))"
  shows "(\<forall>s. find (\<lambda>s. s_id s = i) (students d) = Some s \<longrightarrow>
            (\<exists>d'. delete_student i d =
                     (Json 200 ''Student and related records deleted successfully'', d')
               \<and> set (students d') = set (students d) - {s}
               \<and> get_student i d' = JsonError 404 ''Student not found''
               \<and> grades d' = filter (\<lambda>g. g_student_id g \<noteq> i) (grades d)
               \<and> attendance d' = filter (\<lambda>a. a_student_id a \<noteq> i) (attendance d)
               \<and> fees d' = filter (\<lambda>f. f_student_id f \<noteq> i) (fees d)
               \<and> get_student_grades i d' = Json 200 []
               \<and> get_student_attendance i startDate endDate d' = Json 200 []
               \<and> get_student_fees i d' = Json 200 []
               \<and> users d' = users d \<and> notifications d' = notifications d))
       \<and> (find (\<lambda>s. s_id s = i) (students d) = None \<longrightarrow>
            delete_student i d = (JsonError 404 ''Student not found'', d))"
proof (intro conjI allI impI)
  fix s
  assume found: "find (\<lambda>s. s_id s = i) (students d) = Some s"
  define d' where "d' = snd (delete_student i d)"
  from found have run: "delete_student i d =
      (Json 200 ''Student and related records deleted successfully'', d')"
    and st: "students d' = delete_first (\<lambda>s. s_id s = i) (students d)"
    and gr: "grades d' = filter (\<lambda>g. g_student_id g \<noteq> i) (grades d)"
    and at: "attendance d' = filter (\<lambda>a. a_student_id a \<noteq> i) (attendance d)"
    and fe: "fees d' = filter (\<lambda>f. f_student_id f \<noteq> i) (fees d)"
    and other: "users d' = users d" "notifications d' = notifications d"
    by (simp_all add: d'_def delete_student_def)
  have gone: "set (students d') = set (students d) - {s}"
    and none: "find (\<lambda>s. s_id s = i) (students d') = None"
    using delete_first_distinct [OF assms found] st by simp_all
  have g0: "filter (\<lambda>g. g_student_id g = i) (grades d') = []"
    and a0: "filter (\<lambda>a. a_student_id a = i \<and> P a) (attendance d') = []"
    and f0: "filter (\<lambda>f. f_student_id f = i) (fees d') = []" for P
    by (simp_all add: gr at fe filter_empty_conv)
  have look: "get_student i d' = JsonError 404 ''Student not found''"
    "get_student_grades i d' = Json 200 []"
    "get_student_attendance i startDate endDate d' = Json 200 []"
    "get_student_fees i d' = Json 200 []"
    by (simp_all add: get_student_def none get_student_grades_def g0
        get_student_attendance_def a0 get_student_fees_def f0)
  from run gone look gr at fe other
  show "\<exists>d'. delete_student i d =
                     (Json 200 ''Student and related records deleted successfully'', d')
               \<and> set (students d') = set (students d) - {s}
               \<and> get_student i d' = JsonError 404 ''Student not found''
               \<and> grades d' = filter (\<lambda>g. g_student_id g \<noteq> i) (grades d)
               \<and> attendance d' = filter (\<lambda>a. a_student_id a \<noteq> i) (attendance d)
               \<and> fees d' = filter (\<lambda>f. f_student_id f \<noteq> i) (fees d)
               \<and> get_student_grades i d' = Json 200 []
               \<and> get_student_attendance i startDate endDate d' = Json 200 []
               \<and> get_student_fees i d' = Json 200 []
               \<and> users d' = users d \<and> notifications d' = notifications d"
    by blast
next
  assume "find (\<lambda>s. s_id s = i) (students d) = None"
  then show "delete_student i d = (JsonError 404 ''Student not found'', d)"
    by (simp add: delete_student_def)
qed

lemmas sample_defs = db1_def db0_def db_empty_def db_fresh_def student0_def student1_def
  grade0_def grade1_def att0_def att1_def fee0_def fee1_def note0_def note1_def user0_def

theorem delete_student_cascade_witness:
  "distinct (map s_id (students db1))
   \<and> find (\<lambda>s. s_id s = 7) (students db1) = Some student0
   \<and> (\<exists>d'. delete_student 7 db1 =
               (Json 200 ''Student and related records deleted successfully'', d')
         \<and> set (students d') = {student1}
         \<and> grades d' = [grade1] \<and> attendance d' = [att1] \<and> fees d' = [fee1]
         \<and> get_student_grades 7 d' = Json 200 []
         \<and> get_student_attendance 7 None None d' = Json 200 []
         \<and> get_student_fees 7 d' = Json 200 []
         \<and> notifications d' = [note0, note1])
   \<and> find (\<lambda>s. s_id s = 9) (students db1) = None
   \<and> delete_student 9 db1 = (JsonError 404 ''Student not found'', db1)"
proof -
  have dist: "distinct (map s_id (students db1))"
    by (simp add: sample_defs)
  have found: "find (\<lambda>s. s_id s = 7) (students db1) = Some student0"
    by (simp add: sample_defs)
  have missing: "find (\<lambda>s. s_id s = 9) (students db1) = None"
    by (simp add: sample_defs)
  have ne: "student1 \<noteq> student0" "student0 \<noteq> student1"
    by (simp_all add: sample_defs)
  have vals: "set (students db1) - {student0} = {student1}"
    "filter (\<lambda>g. g_student_id g \<noteq> 7) (grades db1) = [grade1]"
    "filter (\<lambda>a. a_student_id a \<noteq> 7) (attendance db1) = [att1]"
    "filter (\<lambda>f. f_student_id f \<noteq> 7) (fees db1) = [fee1]"
    "notifications db1 = [note0, note1]"
    using ne by (auto simp: sample_defs)
  note th = delete_student_cascade [OF dist, of 7 None None]
  from th found obtain d' where
    "delete_student 7 db1 =
               (Json 200 ''Student and related records deleted successfully'', d')"
    "set (students d') = set (students db1) - {student0}"
    "grades d' = filter (\<lambda>g. g_student_id g \<noteq> 7) (grades db1)"
    "attendance d' = filter (\<lambda>a. a_student_id a \<noteq> 7) (attendance db1)"
    "fees d' = filter (\<lambda>f. f_student_id f \<noteq> 7) (fees db1)"
    "get_student_grades 7 d' = Json 200 []"
    "get_student_attendance 7 None None d' = Json 200 []"
    "get_student_fees 7 d' = Json 200 []"
    "notifications d' = notifications db1"
    by blast
  then have "\<exists>d'. delete_student 7 db1 =
               (Json 200 ''Student and related records deleted successfully'', d')
         \<and> set (students d') = {student1}
         \<and> grades d' = [grade1] \<and> attendance d' = [att1] \<and> fees d' = [fee1]
         \<and> get_student_grades 7 d' = Json 200 []
         \<and> get_student_attendance 7 None None d' = Json 200 []
         \<and> get_student_fees 7 d' = Json 200 []
         \<and> notifications d' = [note0, note1]"
    unfolding vals by blast
  moreover have "delete_student 9 db1 = (JsonError 404 ''Student not found'', db1)"
    using delete_student_cascade [OF dist, of 9] missing by blast
  ultimately show ?thesis using dist found missing by blast
qed

subsection \<open>Registration and login\<close>

lemma find_snoc:
  "find P (xs @ [x]) = (case find P xs of Some y \<Rightarrow> Some y | None \<Rightarrow> if P x then Some x else None)"
  by (induction xs) auto

lemma register_201D:
  assumes "register e b d = (Json 201 r, d')"
  obtains pw full_name email where
    "rb_password b = Some pw" "rb_full_name b = Some full_name" "rb_email b = Some email"
    "find (\<lambda>u. Some (u_email u) = rb_email b) (users d) = None"
    "d' = d\<lparr>users := users d @ [\<lparr>u_id = next_oid d, u_full_name = full_name,
                  u_email = email, u_password = bcrypt_hash e pw,
                  u_role = or_default (rb_role b) ''teacher'', u_created_at = now e\<rparr>],
             next_oid := next_oid d + 1\<rparr>"
    "r = \<lparr>ar_message = ''User registered successfully'',
          ar_token = sign_token e (next_oid d) (or_default (rb_role b) ''teacher''),
          ar_id = next_oid d, ar_full_name = full_name, ar_email = email,
          ar_role = or_default (rb_role b) ''teacher''\<rparr>"
  using assms
  by (auto simp: register_def Let_def split: option.splits if_splits)

text \<open>
  C5. If a user with the email \<open>em\<close> is stored, \<open>POST /register\<close> with that email answers
  400 \<open>User already exists\<close> and returns the store as it was (no user added, none
  changed). And whenever a registration succeeds, the one user it appends stores
  \<open>bcrypt.hash(password, 10)\<close> as its password: the plaintext is stored only if the
  library's hash of the password is the password itself.
\<close>

theorem register_twice_conflict:
  "(\<forall>u em. u \<in> set (users d) \<and> u_email u = em \<and> rb_email b = Some em \<longrightarrow>
       register e b d = (JsonError 400 ''User already exists'', d)
       \<and> status_code (fst (register e b d)) = 400
       \<and> users (snd (register e b d)) = users d)
   \<and> (\<forall>r d'. register e b d = (Json 201 r, d') \<longrightarrow>
        (\<exists>pw u. rb_password b = Some pw \<and> users d' = users d @ [u]
            \<and> u_password u = bcrypt_hash e pw
            \<and> (u_password u = pw) = (bcrypt_hash e pw = pw)))"
proof (intro conjI allI impI)
  fix u em
  assume a: "u \<in> set (users d) \<and> u_email u = em \<and> rb_email b = Some em"
  then have "find (\<lambda>u. Some (u_email u) = rb_email b) (users d) \<noteq> None"
    by (auto simp: find_None_iff)
  then show conflict: "register e b d = (JsonError 400 ''User already exists'', d)"
    by (auto simp: register_def)
  then show "status_code (fst (register e b d)) = 400"
    and "users (snd (register e b d)) = users d"
    by simp_all
next
  fix r d'
  assume "register e b d = (Json 201 r, d')"
  then show "\<exists>pw u. rb_password b = Some pw \<and> users d' = users d @ [u]
            \<and> u_password u = bcrypt_hash e pw
            \<and> (u_password u = pw) = (bcrypt_hash e pw = pw)"
    by (elim register_201D) simp
qed

theorem register_twice_conflict_witness:
  "(\<exists>r d'. register env0 register_body0 db_fresh = (Json 201 r, d')
       \<and> map u_password (users d') = [''$2a$10$chalk'']
       \<and> register env0 register_body0 d' = (JsonError 400 ''User already exists'', d'))"
proof -
  define d' where "d' = snd (register env0 register_body0 db_fresh)"
  define r where "r = \<lparr>ar_message = ''User registered successfully'',
          ar_token = ''secret:teacher'', ar_id = 1, ar_full_name = ''Tess Teacher'',
          ar_email = ''tess@school.com'', ar_role = ''teacher''\<rparr>"
  have reg: "register env0 register_body0 db_fresh = (Json 201 r, d')"
    unfolding d'_def r_def
    by (simp add: register_def register_body0_def db_fresh_def db_empty_def env0_def
        or_default_def user_roles_def sign_token_def)
  note th = register_twice_conflict [of d' register_body0 env0]
  note th0 = register_twice_conflict [of db_fresh register_body0 env0]
  from th0 reg obtain pw u where
    u: "rb_password register_body0 = Some pw" "users d' = users db_fresh @ [u]"
      "u_password u = bcrypt_hash env0 pw"
    by blast
  from u(1) have pw: "pw = ''chalk''" by (simp add: register_body0_def)
  from reg have em: "u_email u = ''tess@school.com''"
    using u(2) by (elim register_201D) (auto simp: register_body0_def)
  have stored: "map u_password (users d') = [''$2a$10$chalk'']"
    using u pw by (simp add: db_fresh_def db_empty_def env0_def)
  have "u \<in> set (users d') \<and> u_email u = ''tess@school.com''
      \<and> rb_email register_body0 = Some ''tess@school.com''"
    using u(2) em by (simp add: register_body0_def)
  with th have "register env0 register_body0 d' = (JsonError 400 ''User already exists'', d')"
    by blast
  with reg stored show ?thesis
    by (intro exI [of _ r] exI [of _ d']) simp
qed






subsection \<open>Notifications belong to their recipient\<close>

lemma update_first_keeps:
  "x \<in> set xs \<Longrightarrow> \<not> P x \<Longrightarrow> x \<in> set (update_first P f xs)"
  by (induction xs) auto

lemma delete_first_keeps:
  "x \<in> set xs \<Longrightarrow> \<not> P x \<Longrightarrow> x \<in> set (delete_first P xs)"
  by (induction xs) auto

lemma distinct_key_unique:
  "distinct (map key xs) \<Longrightarrow> x \<in> set xs \<Longrightarrow> y \<in> set xs \<Longrightarrow> key y = key x \<Longrightarrow> y = x"
  by (meson distinct_map inj_onD)

text \<open>
  C10. Let \<open>n\<close> be a stored notification whose recipient is not the caller (identifiers
  being unique, as MongoDB keeps \<open>_id\<close>). Then the list of \<open>GET /api/notifications\<close> does
  not contain \<open>n\<close>; mark-read and delete with the identifier of \<open>n\<close> answer 404 and return
  the store as it was; and after mark-read or delete with any identifier, after
  mark-all-read and after the caller creates a notification, \<open>n\<close> is still stored as it
  was. The unread count is the number of the caller's own unread notifications.
\<close>

theorem notifications_scoped_to_recipient:
  assumes n: "n \<in> set (notifications d)"
    and other: "n_recipient n \<noteq> jp_id usr"
    and ids: "distinct (map n_id (notifications d))"
  shows "(\<exists>ns. get_notifications usr limit d = Json 200 ns \<and> n \<notin> set ns)
    \<and> mark_read usr (n_id n) d = (JsonError 404 ''Notification not found'', d)
    \<and> delete_notification usr (n_id n) d = (JsonError 404 ''Notification not found'', d)
    \<and> n \<in> set (notifications (snd (mark_read usr i d)))
    \<and> n \<in> set (notifications (snd (delete_notification usr i d)))
    \<and> n \<in> set (notifications (snd (mark_all_read usr d)))
    \<and> n \<in> set (notifications (snd (create_notification e usr b d)))
    \<and> unread_count usr d =
           Json 200 (length (filter (\<lambda>m. m \<noteq> n \<and> n_recipient m = jp_id usr \<and> \<not> n_read m)
                               (notifications d)))"
proof -
  let ?mine = "filter (\<lambda>m. n_recipient m = jp_id usr) (notifications d)"
  have "n \<notin> set (sort_key (\<lambda>m. - n_created_at m) ?mine)"
    using other by simp
  moreover have "n \<notin> set (take k (sort_key (\<lambda>m. - n_created_at m) ?mine))" for k
    using other by (auto dest: in_set_takeD)
  ultimately have c1: "\<exists>ns. get_notifications usr limit d = Json 200 ns \<and> n \<notin> set ns"
    by (simp add: get_notifications_def Let_def)
  have "m \<in> set (notifications d) \<Longrightarrow> n_id m = n_id n \<Longrightarrow> n_recipient m \<noteq> jp_id usr" for m
    using distinct_key_unique [OF ids n] other by blast
  then have none: "find (\<lambda>m. n_id m = n_id n \<and> n_recipient m = jp_id usr) (notifications d) = None"
    by (auto simp: find_None_iff)
  from none have c2: "mark_read usr (n_id n) d = (JsonError 404 ''Notification not found'', d)"
    by (simp add: mark_read_def)
  from none have c3: "delete_notification usr (n_id n) d =
      (JsonError 404 ''Notification not found'', d)"
    by (simp add: delete_notification_def)
  have kept_u: "n \<in> set (update_first (\<lambda>m. n_id m = i \<and> n_recipient m = jp_id usr) f
                          (notifications d))" for f
    using n other by (intro update_first_keeps) auto
  have kept_d: "n \<in> set (delete_first (\<lambda>m. n_id m = i \<and> n_recipient m = jp_id usr)
                          (notifications d))"
    using n other by (intro delete_first_keeps) auto
  have c4: "n \<in> set (notifications (snd (mark_read usr i d)))"
    using n kept_u by (simp add: mark_read_def split: option.splits)
  have c5: "n \<in> set (notifications (snd (delete_notification usr i d)))"
    using n kept_d by (simp add: delete_notification_def split: option.splits)
  have c6: "n \<in> set (notifications (snd (mark_all_read usr d)))"
    using n other by (force simp: mark_all_read_def)
  have c7: "n \<in> set (notifications (snd (create_notification e usr b d)))"
    using n by (simp add: create_notification_def Let_def split: option.splits)
  have "filter (\<lambda>m. n_recipient m = jp_id usr \<and> n_read m = False) (notifications d) =
        filter (\<lambda>m. m \<noteq> n \<and> n_recipient m = jp_id usr \<and> \<not> n_read m) (notifications d)"
    using other by (intro filter_cong) auto
  then have c8: "unread_count usr d =
           Json 200 (length (filter (\<lambda>m. m \<noteq> n \<and> n_recipient m = jp_id usr \<and> \<not> n_read m)
                               (notifications d)))"
    by (simp add: unread_count_def)
  from c1 c2 c3 c4 c5 c6 c7 c8 show ?thesis by (intro conjI)
qed

theorem notifications_scoped_to_recipient_witness:
  "note1 \<in> set (notifications db1) \<and> n_recipient note1 \<noteq> jp_id usr0
   \<and> distinct (map n_id (notifications db1))
   \<and> get_notifications usr0 0 db1 = Json 200 [note0]
   \<and> mark_read usr0 51 db1 = (JsonError 404 ''Notification not found'', db1)
   \<and> delete_notification usr0 51 db1 = (JsonError 404 ''Notification not found'', db1)
   \<and> note1 \<in> set (notifications (snd (mark_read usr0 50 db1)))
   \<and> note1 \<in> set (notifications (snd (delete_notification usr0 50 db1)))
   \<and> note1 \<in> set (notifications (snd (mark_all_read usr0 db1)))"
proof -
  have n: "note1 \<in> set (notifications db1)"
    and other: "n_recipient note1 \<noteq> jp_id usr0"
    and ids: "distinct (map n_id (notifications db1))"
    and id: "n_id note1 = 51"
    by (simp_all add: sample_defs usr0_def)
  note th = notifications_scoped_to_recipient [OF n other ids, of 0 50, unfolded id]
  have "get_notifications usr0 0 db1 = Json 200 [note0]"
    by (simp add: get_notifications_def sample_defs usr0_def)
  with th n other ids show ?thesis by simp
qed

subsection \<open>The authentication middleware\<close>

lemma replace_first_Bearer: "replace_first ''Bearer '' [] (''Bearer '' @ token) = token"
  by simp

text \<open>
  That every route but register, login and logout answers 401 without a token does not
  hold for \<open>GET /\<close>: the test route is registered without the middleware and answers a
  request that carries no \<open>Authorization\<close> header with the counts it reads from the
  store. (The table of handlers given to \<open>serve\<close> here answers with the test route; only
  \<open>Root\<close> is requested.)
\<close>

theorem root_served_without_token_counterexample:
  "Root \<notin> {Register, Login, Logout}
   \<and> serve env0 (\<lambda>r u q. \<lambda>d. (test_route d, d)) Root None () db1 =
       (Json 200 \<lparr>ri_status = ''Running'', ri_database = ''Connected'',
                  ri_total_students = 2, ri_total_users = 1\<rparr>, db1)
   \<and> status_code (fst (serve env0 (\<lambda>r u q. \<lambda>d. (test_route d, d)) Root None () db1)) \<noteq> 401"
  by (simp add: serve_def test_route_def sample_defs)

text \<open>
  C6, amended. The routes registered with \<open>authenticate\<close> are all routes except \<open>GET /\<close>,
  \<open>POST /register\<close> and \<open>POST /login\<close>. On such a route, whatever the handler:
  a request with no \<open>Authorization\<close> header, or with a header that is empty once its
  first \<open>Bearer \<close> is removed, is answered 401 and the store is returned as it was; a
  request whose remaining token does not verify (the signature does not check, or the
  clock has reached the expiry) is answered 400 \<open>Invalid token\<close>, the store as it was;
  a request whose token verifies is handed to the handler with the decoded payload, which
  carries \<open>id\<close> and \<open>role\<close>.
\<close>

theorem authenticate_guards_routes:
  "(uses_authenticate r \<longleftrightarrow> r \<notin> {Root, Register, Login})
   \<and> (uses_authenticate r \<longrightarrow>
        (header = None \<or> (\<exists>h. header = Some h \<and> replace_first ''Bearer '' [] h = []) \<longrightarrow>
           serve e handler r header q st =
             (JsonError 401 ''Access denied. No token provided.'', st))
      \<and> (\<forall>h. header = Some h \<and> replace_first ''Bearer '' [] h \<noteq> [] \<and>
              (jwt_decode e (JWT_SECRET e) (replace_first ''Bearer '' [] h) = None \<or>
               (\<exists>p. jwt_decode e (JWT_SECRET e) (replace_first ''Bearer '' [] h) = Some p
                    \<and> jp_exp p \<le> now e div 1000)) \<longrightarrow>
           serve e handler r header q st = (JsonError 400 ''Invalid token'', st))
      \<and> (\<forall>h p. header = Some h \<and> replace_first ''Bearer '' [] h \<noteq> [] \<and>
              jwt_decode e (JWT_SECRET e) (replace_first ''Bearer '' [] h) = Some p \<and>
              now e div 1000 < jp_exp p \<longrightarrow>
           serve e handler r header q st = handler r (Some p) q st))"
proof (intro conjI impI allI)
  show "uses_authenticate r \<longleftrightarrow> r \<notin> {Root, Register, Login}"
    by (cases r) simp_all
next
  assume "uses_authenticate r"
    and "header = None \<or> (\<exists>h. header = Some h \<and> replace_first ''Bearer '' [] h = [])"
  then show "serve e handler r header q st =
      (JsonError 401 ''Access denied. No token provided.'', st)"
    by (auto simp: serve_def authenticate_def)
next
  fix h
  assume "uses_authenticate r"
    and "header = Some h \<and> replace_first ''Bearer '' [] h \<noteq> [] \<and>
              (jwt_decode e (JWT_SECRET e) (replace_first ''Bearer '' [] h) = None \<or>
               (\<exists>p. jwt_decode e (JWT_SECRET e) (replace_first ''Bearer '' [] h) = Some p
                    \<and> jp_exp p \<le> now e div 1000))"
  then show "serve e handler r header q st = (JsonError 400 ''Invalid token'', st)"
    by (auto simp: serve_def authenticate_def jwt_verify_def)
next
  fix h p
  assume "uses_authenticate r"
    and "header = Some h \<and> replace_first ''Bearer '' [] h \<noteq> [] \<and>
              jwt_decode e (JWT_SECRET e) (replace_first ''Bearer '' [] h) = Some p \<and>
              now e div 1000 < jp_exp p"
  then show "serve e handler r header q st = handler r (Some p) q st"
    by (auto simp: serve_def authenticate_def jwt_verify_def)
qed

theorem authenticate_guards_routes_witness:
  "uses_authenticate Dashboard
   \<and> serve env0 (\<lambda>r u q. \<lambda>d. (Json 200 u, d)) Dashboard None () db1 =
       (JsonError 401 ''Access denied. No token provided.'', db1)
   \<and> serve env0 (\<lambda>r u q. \<lambda>d. (Json 200 u, d)) Dashboard (Some ''Bearer '') () db1 =
       (JsonError 401 ''Access denied. No token provided.'', db1)
   \<and> serve env0 (\<lambda>r u q. \<lambda>d. (Json 200 u, d)) Dashboard (Some ''Bearer secret:admin'') () db1 =
       (JsonError 400 ''Invalid token'', db1)
   \<and> serve env_late (\<lambda>r u q. \<lambda>d. (Json 200 u, d)) Dashboard
        (Some ''Bearer secret:teacher'') () db1 =
       (JsonError 400 ''Invalid token'', db1)
   \<and> serve env0 (\<lambda>r u q. \<lambda>d. (Json 200 u, d)) Dashboard
        (Some ''Bearer secret:teacher'') () db1 =
       (Json 200 (Some usr0), db1)"
proof -
  let ?h = "\<lambda>r (u :: jwt_payload option) (q :: unit). \<lambda>d :: db. (Json 200 u, d)"
  have r: "uses_authenticate Dashboard" by simp
  have strip: "replace_first ''Bearer '' [] ''Bearer '' = []"
    "replace_first ''Bearer '' [] ''Bearer secret:admin'' = ''secret:admin''"
    "replace_first ''Bearer '' [] ''Bearer secret:teacher'' = ''secret:teacher''"
    by simp_all
  have dec: "jwt_decode env0 (JWT_SECRET env0) ''secret:admin'' = None"
    "jwt_decode env0 (JWT_SECRET env0) ''secret:teacher'' = Some usr0"
    "jwt_decode env_late (JWT_SECRET env_late) ''secret:teacher'' = Some usr0"
    by (simp_all add: env0_def env_late_def)
  have clock: "now env0 div 1000 < jp_exp usr0" "jp_exp usr0 \<le> now env_late div 1000"
    by (simp_all add: env0_def env_late_def usr0_def)
  have a: "serve env0 ?h Dashboard None () db1 =
       (JsonError 401 ''Access denied. No token provided.'', db1)"
    using authenticate_guards_routes [of Dashboard None env0 ?h "()" db1] r by simp
  have b: "serve env0 ?h Dashboard (Some ''Bearer '') () db1 =
       (JsonError 401 ''Access denied. No token provided.'', db1)"
    using authenticate_guards_routes [of Dashboard "Some ''Bearer ''" env0 ?h "()" db1] r strip
    by simp
  have c: "serve env0 ?h Dashboard (Some ''Bearer secret:admin'') () db1 =
       (JsonError 400 ''Invalid token'', db1)"
    using authenticate_guards_routes
      [of Dashboard "Some ''Bearer secret:admin''" env0 ?h "()" db1] r strip dec
    by simp
  have d: "serve env_late ?h Dashboard (Some ''Bearer secret:teacher'') () db1 =
       (JsonError 400 ''Invalid token'', db1)"
    using authenticate_guards_routes
      [of Dashboard "Some ''Bearer secret:teacher''" env_late ?h "()" db1] r strip dec clock
    by simp
  have e: "serve env0 ?h Dashboard (Some ''Bearer secret:teacher'') () db1 =
       (Json 200 (Some usr0), db1)"
    using authenticate_guards_routes
      [of Dashboard "Some ''Bearer secret:teacher''" env0 ?h "()" db1] r strip dec clock
    by simp
  from r a b c d e show ?thesis by (intro conjI)
qed

subsection \<open>Payloads that fail validation\<close>



















subsection \<open>Fees and their payment date\<close>

text \<open>
  In the full server the invariant does not hold: \<open>POST /api/fees\<close> with status \<open>pending\<close>
  stores a fee whose payment date is set, by the default of the schema.
\<close>

theorem pending_fee_dated_counterexample:
  "status_code (fst (add_fee env0 usr0 (fee_body0 ''pending'') db0)) = 201
   \<and> map (\<lambda>f. (f_status f, f_payment_date f)) (fees (snd (add_fee env0 usr0 (fee_body0 ''pending'') db0)))
       = [(''pending'', Some 1705312800000)]"
  by (simp add: add_fee_def new_Fee_def fee_body0_def given_in_def payment_methods_def
      or_default_def fee_statuses_def env0_def sample_defs Let_def)

lemma update_first_set:
  "set (update_first P f xs) \<subseteq> set xs \<union> f ` {x \<in> set xs. P x}"
  by (induction xs) auto

lemma add_fee_simple_201D:
  assumes "add_fee_simple e b st = (Json 201 (msg, f), st')"
  shows "fees_simple st' = fees_simple st @ [f]"
    and "fs_payment_date f = (if fsb_status b = Some ''paid'' then Some (now e) else None)"
    and "fs_status f = Some (or_default (fsb_status b) ''pending'')"
  using assms
  by (auto simp: add_fee_simple_def new_Fee_simple_def split: option.splits if_splits)

lemma update_fee_simple_200D:
  assumes "update_fee_simple e i status st = (Json 200 (msg, f), st')"
  shows "fs_payment_date f = (if status = Some ''paid'' then Some (now e) else None)"
    and "status \<noteq> None \<longrightarrow> fs_status f = status"
    and "set (fees_simple st') \<subseteq> set (fees_simple st) \<union> {f}"
proof -
  from assms obtain f0 where f0: "find (\<lambda>f. fs_id f = i) (fees_simple st) = Some f0"
    by (auto simp: update_fee_simple_def split: option.splits)
  with assms have f: "f = f0\<lparr>fs_status := (case status of
                                          None \<Rightarrow> if omit_undefined e then fs_status f0 else None
                                        | Some s \<Rightarrow> Some s),
                          fs_payment_date := (if status = Some ''paid'' then Some (now e) else None)\<rparr>"
    and st': "fees_simple st' = update_first (\<lambda>f. fs_id f = i) (\<lambda>_. f) (fees_simple st)"
    by (auto simp: update_fee_simple_def Let_def)
  from f show "fs_payment_date f = (if status = Some ''paid'' then Some (now e) else None)"
    and "status \<noteq> None \<longrightarrow> fs_status f = status"
    by auto
  from update_first_set [of "\<lambda>f. fs_id f = i" "\<lambda>_. f" "fees_simple st"]
  show "set (fees_simple st') \<subseteq> set (fees_simple st) \<union> {f}"
    unfolding st' by auto
qed

lemma fee_step_invariant:
  assumes "\<forall>f \<in> set (fees_simple st). paid_if_dated f"
  shows "\<forall>f \<in> set (fees_simple (fee_step r st)). paid_if_dated f"
proof (cases "snd r")
  case (PostFee b)
  show ?thesis
  proof (cases "new_Fee_simple (fst r) (next_oid_simple st) b")
    case None
    with PostFee assms show ?thesis by (simp add: fee_step_def add_fee_simple_def)
  next
    case (Some f)
    then have "paid_if_dated f"
      by (auto simp: new_Fee_simple_def paid_if_dated_def or_default_def
          split: option.splits if_splits)
    with PostFee Some assms show ?thesis by (simp add: fee_step_def add_fee_simple_def)
  qed
next
  case (PutFee i status)
  show ?thesis
  proof (cases "find (\<lambda>f. fs_id f = i) (fees_simple st)")
    case None
    with PutFee assms show ?thesis by (simp add: fee_step_def update_fee_simple_def)
  next
    case (Some f0)
    define f where "f = f0\<lparr>fs_status := (case status of
                        None \<Rightarrow> if omit_undefined (fst r) then fs_status f0 else None
                      | Some s \<Rightarrow> Some s),
                    fs_payment_date := (if status = Some ''paid'' then Some (now (fst r)) else None)\<rparr>"
    have "paid_if_dated f" by (simp add: f_def paid_if_dated_def)
    moreover have "fees_simple (fee_step r st) =
        update_first (\<lambda>f. fs_id f = i) (\<lambda>_. f) (fees_simple st)"
      using PutFee Some by (simp add: fee_step_def update_fee_simple_def f_def Let_def)
    ultimately show ?thesis
      using assms update_first_set [of "\<lambda>f. fs_id f = i" "\<lambda>_. f" "fees_simple st"]
      by auto
  qed
qed

lemma fee_run_invariant:
  "\<forall>f \<in> set (fees_simple st). paid_if_dated f \<Longrightarrow>
   \<forall>f \<in> set (fees_simple (fee_run rs st)). paid_if_dated f"
proof (induction rs arbitrary: st)
  case Nil
  then show ?case by simp
next
  case (Cons r rs)
  from Cons.IH [OF fee_step_invariant [OF Cons.prems]] show ?case by simp
qed

text \<open>
  C8, amended. In the simplified server, which has both routes: after any sequence of
  \<open>POST /api/fees\<close> and \<open>PUT /api/fees/:id\<close> requests on a store in which every dated fee
  is paid (the empty store, for one), every fee with a payment date has the status
  \<open>paid\<close>; the fee a request creates or updates has the payment date \<open>now\<close> if the
  request's status is \<open>paid\<close> and none otherwise, so none for \<open>pending\<close>. In the full
  server, which has no route that updates a fee, every fee that \<open>POST /api/fees\<close>
  creates has the payment date \<open>now\<close>, whatever its status.
\<close>

theorem payment_date_only_if_paid:
  "((\<forall>f \<in> set (fees_simple st). fs_payment_date f \<noteq> None \<longrightarrow> fs_status f = Some ''paid'') \<longrightarrow>
      (\<forall>f \<in> set (fees_simple (fee_run rs st)).
          fs_payment_date f \<noteq> None \<longrightarrow> fs_status f = Some ''paid''))
   \<and> (\<forall>msg f st'. add_fee_simple e sb st = (Json 201 (msg, f), st') \<longrightarrow>
          fees_simple st' = fees_simple st @ [f]
          \<and> fs_payment_date f = (if fsb_status sb = Some ''paid'' then Some (now e) else None))
   \<and> (\<forall>msg f st'. update_fee_simple e i status st = (Json 200 (msg, f), st') \<longrightarrow>
          fs_payment_date f = (if status = Some ''paid'' then Some (now e) else None)
          \<and> (status \<noteq> None \<longrightarrow> fs_status f = status)
          \<and> set (fees_simple st') \<subseteq> set (fees_simple st) \<union> {f})
   \<and> (\<forall>msg f d'. add_fee e usr fb d = (Json 201 (msg, f), d') \<longrightarrow>
          fees d' = fees d @ [f] \<and> f_payment_date f = Some (now e)
          \<and> f_status f = or_default (fb_status fb) ''paid'')"
proof (intro conjI allI impI)
  assume "\<forall>f \<in> set (fees_simple st). fs_payment_date f \<noteq> None \<longrightarrow> fs_status f = Some ''paid''"
  then have "\<forall>f \<in> set (fees_simple st). paid_if_dated f"
    by (auto simp: paid_if_dated_def)
  from fee_run_invariant [OF this, of rs]
  show "\<forall>f \<in> set (fees_simple (fee_run rs st)).
          fs_payment_date f \<noteq> None \<longrightarrow> fs_status f = Some ''paid''"
    by (auto simp: paid_if_dated_def)
next
  fix msg f st'
  assume "add_fee_simple e sb st = (Json 201 (msg, f), st')"
  from add_fee_simple_201D [OF this]
  show "fees_simple st' = fees_simple st @ [f]"
    and "fs_payment_date f = (if fsb_status sb = Some ''paid'' then Some (now e) else None)"
    by simp_all
next
  fix msg f st'
  assume "update_fee_simple e i status st = (Json 200 (msg, f), st')"
  from update_fee_simple_200D [OF this]
  show "fs_payment_date f = (if status = Some ''paid'' then Some (now e) else None)"
    and "status \<noteq> None \<Longrightarrow> fs_status f = status"
    and "set (fees_simple st') \<subseteq> set (fees_simple st) \<union> {f}"
    by simp_all
next
  fix msg f d'
  assume "add_fee e usr fb d = (Json 201 (msg, f), d')"
  then show "fees d' = fees d @ [f]" and "f_payment_date f = Some (now e)"
    and "f_status f = or_default (fb_status fb) ''paid''"
    by (auto simp: add_fee_def new_Fee_def Let_def split: option.splits if_splits)
qed

theorem payment_date_only_if_paid_witness:
  "fees_simple store_simple0 = []
   \<and> list_all (\<lambda>f. fs_payment_date f = None \<or> fs_status f = Some ''paid'')
        (fees_simple (fee_run [(env0, PostFee (fee_simple_body0 (Some ''pending''))),
                               (env0, PutFee 1 (Some ''paid'')),
                               (env0, PostFee (fee_simple_body0 (Some ''paid''))),
                               (env_late, PutFee 1 (Some ''pending''))] store_simple0))
   \<and> map (\<lambda>f. (fs_status f, fs_payment_date f))
        (fees_simple (fee_run [(env0, PostFee (fee_simple_body0 (Some ''pending''))),
                               (env0, PutFee 1 (Some ''paid'')),
                               (env0, PostFee (fee_simple_body0 (Some ''paid''))),
                               (env_late, PutFee 1 (Some ''pending''))] store_simple0))
       = [(Some ''pending'', None), (Some ''paid'', Some 1705312800000)]
   \<and> (\<exists>msg f st'. add_fee_simple env0 (fee_simple_body0 (Some ''pending'')) store_simple0
                      = (Json 201 (msg, f), st')
          \<and> fees_simple st' = [f] \<and> fs_payment_date f = None
          \<and> (\<exists>msg' f' st''. update_fee_simple env_late 1 (Some ''paid'') st'
                      = (Json 200 (msg', f'), st'')
                \<and> fs_payment_date f' = Some 1706004000000 \<and> fs_status f' = Some ''paid''))
   \<and> (\<exists>msg f d'. add_fee env0 usr0 (fee_body0 ''overdue'') db0 = (Json 201 (msg, f), d')
          \<and> f_status f = ''overdue'' \<and> f_payment_date f = Some 1705312800000)"
proof -
  let ?rs = "[(env0, PostFee (fee_simple_body0 (Some ''pending''))),
              (env0, PutFee 1 (Some ''paid'')),
              (env0, PostFee (fee_simple_body0 (Some ''paid''))),
              (env_late, PutFee 1 (Some ''pending''))]"
  have empty: "fees_simple store_simple0 = []" by (simp add: store_simple0_def)
  note th = payment_date_only_if_paid [where st = store_simple0 and rs = ?rs and e = env0
      and sb = "fee_simple_body0 (Some ''pending'')" and usr = usr0
      and fb = "fee_body0 ''overdue''" and d = db0]
  from th empty have "\<forall>f \<in> set (fees_simple (fee_run ?rs store_simple0)).
          fs_payment_date f \<noteq> None \<longrightarrow> fs_status f = Some ''paid''"
    by simp
  then have inv: "list_all (\<lambda>f. fs_payment_date f = None \<or> fs_status f = Some ''paid'')
        (fees_simple (fee_run ?rs store_simple0))"
    unfolding list_all_iff by blast
  have run: "map (\<lambda>f. (fs_status f, fs_payment_date f)) (fees_simple (fee_run ?rs store_simple0))
       = [(Some ''pending'', None), (Some ''paid'', Some 1705312800000)]"
    by (simp add: fee_step_def add_fee_simple_def new_Fee_simple_def update_fee_simple_def
        fee_simple_body0_def store_simple0_def or_default_def fee_statuses_simple_def
        env0_def env_late_def Let_def)
  define f where "f = \<lparr>fs_id = 1, fs_student_id = 7, fs_amount = 5000,
      fs_status = Some ''pending'', fs_payment_date = None, fs_created_at = 1705312800000\<rparr>"
  define st' where "st' = \<lparr>fees_simple = [f], next_oid_simple = 2\<rparr>"
  have post: "add_fee_simple env0 (fee_simple_body0 (Some ''pending'')) store_simple0
                      = (Json 201 (''Fee recorded successfully'', f), st')"
    by (simp add: add_fee_simple_def new_Fee_simple_def fee_simple_body0_def
        store_simple0_def or_default_def fee_statuses_simple_def env0_def f_def st'_def)
  from th post have "fees_simple st' = fees_simple store_simple0 @ [f]
      \<and> fs_payment_date f = (if fsb_status (fee_simple_body0 (Some ''pending'')) = Some ''paid''
                               then Some (now env0) else None)"
    by blast
  then have created: "fees_simple st' = [f] \<and> fs_payment_date f = None"
    by (simp add: empty fee_simple_body0_def)
  define f' where "f' = f\<lparr>fs_status := Some ''paid'', fs_payment_date := Some 1706004000000\<rparr>"
  have put: "update_fee_simple env_late 1 (Some ''paid'') st' =
      (Json 200 (''Fee updated successfully'', f'), st'\<lparr>fees_simple := [f']\<rparr>)"
    by (simp add: update_fee_simple_def st'_def f_def f'_def env_late_def env0_def Let_def)
  from payment_date_only_if_paid [where e = env_late and i = 1 and status = "Some ''paid''"
      and st = st'] put
  have "fs_payment_date f' = (if Some ''paid'' = Some ''paid'' then Some (now env_late) else None)
      \<and> fs_status f' = Some ''paid''"
    by blast
  then have updated: "fs_payment_date f' = Some 1706004000000 \<and> fs_status f' = Some ''paid''"
    by (simp add: env_late_def env0_def)
  have simple: "\<exists>msg f st'. add_fee_simple env0 (fee_simple_body0 (Some ''pending'')) store_simple0
                      = (Json 201 (msg, f), st')
          \<and> fees_simple st' = [f] \<and> fs_payment_date f = None
          \<and> (\<exists>msg' f' st''. update_fee_simple env_late 1 (Some ''paid'') st'
                      = (Json 200 (msg', f'), st'')
                \<and> fs_payment_date f' = Some 1706004000000 \<and> fs_status f' = Some ''paid'')"
    using post created put updated
    by (intro exI [of _ "''Fee recorded successfully''"] exI [of _ f] exI [of _ st']
        exI [of _ "''Fee updated successfully''"] exI [of _ f']
        exI [of _ "st'\<lparr>fees_simple := [f']\<rparr>"]) simp
  define g where "g = \<lparr>f_id = 100, f_student_id = 7, f_amount = 5000,
      f_payment_date = Some 1705312800000, f_payment_method = Some ''cash'',
      f_term = ''First'', f_academic_year = ''2024'', f_status = ''overdue'',
      f_receipt_number = None, f_created_at = 1705312800000\<rparr>"
  define d' where "d' = snd (add_fee env0 usr0 (fee_body0 ''overdue'') db0)"
  have full: "add_fee env0 usr0 (fee_body0 ''overdue'') db0 =
      (Json 201 (''Fee payment recorded successfully'', g), d')"
    unfolding d'_def
    by (simp add: add_fee_def new_Fee_def fee_body0_def given_in_def payment_methods_def
        or_default_def fee_statuses_def env0_def sample_defs g_def Let_def)
  from th full have "f_payment_date g = Some (now env0)
      \<and> f_status g = or_default (fb_status (fee_body0 ''overdue'')) ''paid''"
    by blast
  then have "f_status g = ''overdue'' \<and> f_payment_date g = Some 1705312800000"
    by (simp add: env0_def fee_body0_def or_default_def)
  with full have dated: "\<exists>msg f d'. add_fee env0 usr0 (fee_body0 ''overdue'') db0 = (Json 201 (msg, f), d')
          \<and> f_status f = ''overdue'' \<and> f_payment_date f = Some 1705312800000"
    by (intro exI [of _ "''Fee payment recorded successfully''"] exI [of _ g] exI [of _ d']) simp
  from empty inv run simple dated show ?thesis by (intro conjI)
qed

subsection \<open>Attendance by day\<close>

lemma setHours0_local_day: "setHours0 e t = 86400000 * local_day e t - tz_offset e"
proof -
  have "(t + tz_offset e) mod 86400000 =
        (t + tz_offset e) - 86400000 * ((t + tz_offset e) div 86400000)"
    by (simp add: minus_mult_div_eq_mod)
  then show ?thesis by (simp add: setHours0_def local_day_def)
qed

lemma setHours0_eq_iff: "setHours0 e t = setHours0 e t' \<longleftrightarrow> local_day e t = local_day e t'"
  by (simp add: setHours0_local_day)

lemma setHours0_idem: "setHours0 e (setHours0 e t) = setHours0 e t"
proof -
  have "local_day e (setHours0 e t) = local_day e t"
    by (simp add: setHours0_local_day local_day_def)
  then show ?thesis by (simp add: setHours0_local_day)
qed

text \<open>
  C1. Two requests to \<open>POST /api/attendance\<close> for student 7 on 2024-01-15, the first at
  10:00 marking \<open>present\<close>, the second at 11:00 marking \<open>absent\<close>: both answer 201 and the
  collection holds two documents for that student and day. The lookup of the second
  request asks for a document dated 00:00, and the first request stored 10:00. The same
  request sent twice leaves two documents as well, and \<open>GET /api/attendance\<close> for that
  day lists both.
\<close>

theorem mark_attendance_twice_two_records:
  "(let d1 = snd (mark_attendance env0 usr0 (attendance_body0 1705312800000 ''present'') db0);
        r2 = mark_attendance env0 usr0 (attendance_body0 1705316400000 ''absent'') d1;
        r3 = mark_attendance env0 usr0 (attendance_body0 1705312800000 ''present'') d1
    in local_day env0 1705312800000 = local_day env0 1705316400000
       \<and> status_code (fst r2) = 201
       \<and> map (\<lambda>a. (a_student_id a, a_date a, a_status a)) (attendance (snd r2))
           = [(7, 1705312800000, ''present''), (7, 1705316400000, ''absent'')]
       \<and> status_code (fst r3) = 201
       \<and> map (\<lambda>a. (a_student_id a, a_date a, a_status a)) (attendance (snd r3))
           = [(7, 1705312800000, ''present''), (7, 1705312800000, ''present'')]
       \<and> (\<exists>found. get_attendance env0 (Some 1705312800000) (snd r2) = Json 200 found
             \<and> length found = 2))"
  by (simp add: mark_attendance_def new_Attendance_def attendance_body0_def
      attendance_statuses_def setHours0_def local_day_def get_attendance_def
      env0_def sample_defs Let_def)

text \<open>
  What the handler does when the stored date is a start of day: if the first request
  inserts a document dated at the start of the day of the second request, the second
  request finds it and changes its status and remarks in place, and no document is
  added.
\<close>

lemma update_first_snoc:
  "\<forall>x \<in> set xs. \<not> P x \<Longrightarrow> P y \<Longrightarrow> update_first P f (xs @ [y]) = xs @ [f y]"
  by (induction xs) auto

lemma mark_attendance_upsert_at_start_of_day:
  assumes first: "mark_attendance e1 usr b1 d = (Json 201 (m1, a1), d1)"
    and fresh: "\<forall>a \<in> set (attendance d). a_id a \<noteq> next_oid d"
    and zone: "tz_offset e2 = tz_offset e1"
    and dates: "ab_date b1 = Some (setHours0 e2 t2)" "ab_date b2 = Some t2"
    and same: "ab_student_id b2 = ab_student_id b1"
    and status: "ab_status b2 = Some s2" "s2 \<in> set attendance_statuses"
  shows "mark_attendance e2 usr b2 d1 =
           (Json 200 (''Attendance updated successfully'',
                      a1\<lparr>a_status := s2, a_remarks := ab_remarks b2\<rparr>),
            d1\<lparr>attendance := attendance d @ [a1\<lparr>a_status := s2, a_remarks := ab_remarks b2\<rparr>]\<rparr>)"
proof -
  let ?t1 = "setHours0 e2 t2"
  have key: "setHours0 e1 ?t1 = ?t1"
    using zone by (simp add: setHours0_local_day local_day_def)
  let ?P = "\<lambda>a. Some (a_student_id a) = ab_student_id b1 \<and> a_date a = ?t1"
  from first dates(1) key have none: "find ?P (attendance d) = None"
    by (auto simp: mark_attendance_def Let_def split: option.splits if_splits)
  with first dates(1) key obtain
    new: "new_Attendance e1 (next_oid d) b1 = Some a1"
    and d1: "d1 = d\<lparr>attendance := attendance d @ [a1], next_oid := next_oid d + 1\<rparr>"
    by (auto simp: mark_attendance_def Let_def split: option.splits)
  from new dates(1) have a1: "Some (a_student_id a1) = ab_student_id b1" "a_date a1 = ?t1"
    "a_id a1 = next_oid d"
    by (auto simp: new_Attendance_def split: option.splits if_splits)
  have found: "find ?P (attendance d1) = Some a1"
    using none a1 by (simp add: d1 find_snoc)
  have upd: "update_first (\<lambda>a. a_id a = a_id a1) f (attendance d @ [a1]) = attendance d @ [f a1]" for f
    using fresh a1(3) by (intro update_first_snoc) auto
  show ?thesis
    using found dates(2) same status upd
    by (simp add: mark_attendance_def d1 Let_def)
qed

subsection \<open>Dashboard\<close>

text \<open>
  C9. The store \<open>db1\<close> holds two attendance documents of 2024-01-15 with status
  \<open>present\<close>, one dated 00:00 and one dated 10:00. At 10:00 of that day the dashboard
  reports \<open>present_today = 1\<close>: the document dated 10:00 is not counted. The other four
  numbers are plain counts over the store.
\<close>

theorem dashboard_present_today_misses_dated_record:
  "dashboard_stats env0 db1 =
     Json 200 \<lparr>total_students = 2, active_students = 1, total_classes = 2,
               present_today = 1, pending_fees = 1\<rparr>
   \<and> length (filter (\<lambda>a. local_day env0 (a_date a) = local_day env0 (now env0)
                         \<and> a_status a = ''present'') (attendance db1)) = 2"
  by (simp add: dashboard_stats_def setHours0_def local_day_def env0_def sample_defs Let_def)

text \<open>
  What the dashboard does compute: the four counts that do not involve a date are as
  stated in every store, and the count of today's present students is right in every
  store whose attendance dates are starts of days, as the seed scripts store them.
\<close>

lemma dashboard_stats_counts:
  "\<exists>r. dashboard_stats e d = Json 200 r
     \<and> total_students r = length (students d)
     \<and> active_students r = length (filter (\<lambda>s. s_status s = ''active'') (students d))
     \<and> total_classes r = card (s_class ` set (students d))
     \<and> pending_fees r = length (filter (\<lambda>f. f_status f = ''pending'') (fees d))
     \<and> ((\<forall>a \<in> set (attendance d). a_date a = setHours0 e (a_date a)) \<longrightarrow>
          present_today r =
            length (filter (\<lambda>a. local_day e (a_date a) = local_day e (now e)
                                \<and> a_status a = ''present'') (attendance d)))"
proof -
  have classes: "length (remdups (map s_class (students d))) = card (s_class ` set (students d))"
    by (simp add: length_remdups_card_conv)
  have today: "filter (\<lambda>a. a_date a = setHours0 e (now e) \<and> a_status a = ''present'') (attendance d)
      = filter (\<lambda>a. local_day e (a_date a) = local_day e (now e) \<and> a_status a = ''present'')
          (attendance d)"
    if "\<forall>a \<in> set (attendance d). a_date a = setHours0 e (a_date a)"
  proof (rule filter_cong [OF refl])
    fix a assume "a \<in> set (attendance d)"
    with that have "a_date a = setHours0 e (a_date a)" by blast
    then have "a_date a = setHours0 e (now e) \<longleftrightarrow> local_day e (a_date a) = local_day e (now e)"
      using setHours0_eq_iff [of e "a_date a" "now e"] by simp
    then show "(a_date a = setHours0 e (now e) \<and> a_status a = ''present'') =
        (local_day e (a_date a) = local_day e (now e) \<and> a_status a = ''present'')"
      by simp
  qed
  show ?thesis
    using classes today by (simp add: dashboard_stats_def Let_def)
qed

end
